theory Spec2Isabelle
  imports Main "HOL-Library.Multiset" "HOL-Library.Word" "HOL-Library.Sublist"
begin

unbundle bit_operations_syntax

section \<open>Source ranges and their merge (reduce.ts)\<close>

text \<open>
  A JavaScript exception raised by the code is a value of the model: every function that
  can throw returns a sum whose left injection is the exception.
\<close>

datatype js_exception = TypeError

text \<open>The interface \<open>Range\<close> of resolve.ts; lines and columns are JavaScript numbers.\<close>

record Range =
  endColumn :: int
  endLineNumber :: int
  startColumn :: int
  startLineNumber :: int

definition pluckStartPosition :: "Range \<Rightarrow> int \<times> int" where
  "pluckStartPosition rng = (startColumn rng, startLineNumber rng)"

definition pluckEndPosition :: "Range \<Rightarrow> int \<times> int" where
  "pluckEndPosition rng = (endColumn rng, endLineNumber rng)"

text \<open>
  The object literal \<open>{...start, ...end}\<close> built from a plucked start position
  and a plucked end position: a range with these four fields.
\<close>

definition spreadPositions :: "int \<times> int \<Rightarrow> int \<times> int \<Rightarrow> Range" where
  "spreadPositions s e =
     \<lparr>endColumn = fst e, endLineNumber = snd e, startColumn = fst s, startLineNumber = snd s\<rparr>"

text \<open>The reducer callback of \<open>mergeRanges\<close>: \<open>merged\<close> is the accumulator.\<close>

definition mergeStep :: "Range \<Rightarrow> Range \<Rightarrow> Range" where
  "mergeStep merged rng =
     spreadPositions
       (if startLineNumber rng < startLineNumber merged then pluckStartPosition rng
        else if startLineNumber rng = startLineNumber merged
                \<and> startColumn rng < startColumn merged then pluckStartPosition rng
        else pluckStartPosition merged)
       (if endLineNumber rng > endLineNumber merged then pluckEndPosition rng
        else if endLineNumber rng = endLineNumber merged
                \<and> endColumn rng > endColumn merged then pluckEndPosition rng
        else pluckEndPosition merged)"

text \<open>
  \<open>ranges.reduce(callback, ranges[0])\<close> folds over every element, the first one
  included, starting from the first one. On the empty array \<open>ranges[0]\<close> is
  \<open>undefined\<close>, the fold returns it, and plucking its start position throws.
\<close>

definition mergeRanges :: "Range list \<Rightarrow> js_exception + Range" where
  "mergeRanges ranges =
     (case ranges of
        [] \<Rightarrow> Inl TypeError
      | r0 # _ \<Rightarrow>
          (let unsortedMerged = foldl mergeStep r0 ranges
           in Inr (spreadPositions (pluckStartPosition unsortedMerged)
                                   (pluckEndPosition unsortedMerged))))"

text \<open>
  Vocabulary for stating the result of the merge: the start and end of a range as
  (line, column) pairs, compared line first, then column.
\<close>

definition startKey :: "Range \<Rightarrow> int \<times> int" where
  "startKey r = (startLineNumber r, startColumn r)"

definition endKey :: "Range \<Rightarrow> int \<times> int" where
  "endKey r = (endLineNumber r, endColumn r)"

definition lexLe :: "int \<times> int \<Rightarrow> int \<times> int \<Rightarrow> bool" where
  "lexLe a b = (fst a < fst b \<or> (fst a = fst b \<and> snd a \<le> snd b))"

definition lexMin :: "int \<times> int \<Rightarrow> int \<times> int \<Rightarrow> int \<times> int" where
  "lexMin a b = (if lexLe a b then a else b)"

definition lexMax :: "int \<times> int \<Rightarrow> int \<times> int \<Rightarrow> int \<times> int" where
  "lexMax a b = (if lexLe a b then b else a)"


section \<open>JavaScript numbers under the bitwise operators\<close>

text \<open>
  The bitwise operators of JavaScript convert their operands to 32-bit two's complement
  integers (ToInt32) and take a shift count modulo 32. The numbers of the model are
  mathematical integers; every bitwise operator applies the conversion itself, while
  \<open>+\<close>, \<open>-\<close> and the comparisons are those of the integers, as they are for
  JavaScript numbers of this size.
\<close>

definition toInt32 :: "int \<Rightarrow> int" where
  "toInt32 k = signed_take_bit 31 k"

definition shiftCount :: "int \<Rightarrow> nat" where
  "shiftCount k = nat (k mod 32)"

definition js_shl :: "int \<Rightarrow> int \<Rightarrow> int" where
  "js_shl a b = toInt32 (push_bit (shiftCount b) (toInt32 a))"

definition js_sar :: "int \<Rightarrow> int \<Rightarrow> int" where
  "js_sar a b = drop_bit (shiftCount b) (toInt32 a)"

definition js_and :: "int \<Rightarrow> int \<Rightarrow> int" where
  "js_and a b = toInt32 a AND toInt32 b"

definition js_or :: "int \<Rightarrow> int \<Rightarrow> int" where
  "js_or a b = toInt32 a OR toInt32 b"

text \<open>
  \<open>Number(x)\<close> followed by ToInt32, for an \<open>x\<close> that is a number or
  \<open>undefined\<close>: \<open>Number(undefined)\<close> is NaN, and ToInt32 of NaN is 0.
\<close>

definition toInt32_Number :: "int option \<Rightarrow> int" where
  "toInt32_Number x = (case x of None \<Rightarrow> 0 | Some k \<Rightarrow> toInt32 k)"

section \<open>Bech32 (bech32.ts)\<close>

definition bech32CharacterSet :: string where
  "bech32CharacterSet = ''qpzry9x8gf2tvdw0s3jn54khce6mua7l''"

text \<open>
  The object \<open>bech32CharacterSetIndex\<close>, with its entries in the order of the source.
  A key that is \<open>undefined\<close> (an out-of-range read of a string) is no property of the
  object: the lookup gives \<open>undefined\<close>.
\<close>

definition bech32CharacterSetIndexEntries :: "(char \<times> int) list" where
  "bech32CharacterSetIndexEntries =
     [(CHR ''q'', 0), (CHR ''p'', 1), (CHR ''z'', 2), (CHR ''r'', 3), (CHR ''y'', 4),
      (CHR ''9'', 5), (CHR ''x'', 6), (CHR ''8'', 7), (CHR ''g'', 8), (CHR ''f'', 9),
      (CHR ''2'', 10), (CHR ''t'', 11), (CHR ''v'', 12), (CHR ''d'', 13), (CHR ''w'', 14),
      (CHR ''0'', 15), (CHR ''s'', 16), (CHR ''3'', 17), (CHR ''j'', 18), (CHR ''n'', 19),
      (CHR ''5'', 20), (CHR ''4'', 21), (CHR ''k'', 22), (CHR ''h'', 23), (CHR ''c'', 24),
      (CHR ''e'', 25), (CHR ''6'', 26), (CHR ''m'', 27), (CHR ''u'', 28), (CHR ''a'', 29),
      (CHR ''7'', 30), (CHR ''l'', 31)]"

definition bech32CharacterSetIndex :: "char option \<Rightarrow> int option" where
  "bech32CharacterSetIndex key =
     (case key of None \<Rightarrow> None | Some c \<Rightarrow> map_of bech32CharacterSetIndexEntries c)"

text \<open>\<open>s[i]\<close> on a string: the character at \<open>i\<close>, \<open>undefined\<close> out of range.\<close>

definition charAt :: "string \<Rightarrow> nat \<Rightarrow> char option" where
  "charAt s i = (if i < length s then Some (s ! i) else None)"

datatype BitRegroupingError =
  integerOutOfRange | hasDisallowedPadding | requiresDisallowedPadding

text \<open>
  The inner \<open>while (bits >= resultWordLength)\<close> loop of \<open>regroupBits\<close>, on the
  variables it reads and writes. It runs forever when \<open>resultWordLength\<close> is not
  positive and the test holds once: not returning is the value \<open>None\<close>.
\<close>

partial_function (option) regroupEmit ::
  "int \<Rightarrow> int \<Rightarrow> int \<Rightarrow> int \<Rightarrow> int list \<Rightarrow> (int \<times> int list) option" where
  "regroupEmit resultWordLength maxResultInt accumulator bits result =
     (if bits \<ge> resultWordLength
      then regroupEmit resultWordLength maxResultInt accumulator (bits - resultWordLength)
             (result @ [js_and (js_sar accumulator (bits - resultWordLength)) maxResultInt])
      else Some (bits, result))"

declare regroupEmit.simps [code]

text \<open>
  The \<open>for\<close> loop over \<open>bin\<close>: the remaining elements, then the loop variables.
  It returns the error of the range check, or the variables after the last element.
\<close>

fun regroupLoop ::
  "int \<Rightarrow> int \<Rightarrow> int \<Rightarrow> int list \<Rightarrow> int \<Rightarrow> int \<Rightarrow> int list
     \<Rightarrow> (BitRegroupingError + int \<times> int \<times> int list) option" where
  "regroupLoop sourceWordLength resultWordLength maxResultInt [] accumulator bits result =
     Some (Inr (accumulator, bits, result))"
| "regroupLoop sourceWordLength resultWordLength maxResultInt (v # rest) accumulator bits result =
     (if v < 0 \<or> js_sar v sourceWordLength \<noteq> 0 then Some (Inl integerOutOfRange)
      else
        (let accumulator' = js_or (js_shl accumulator sourceWordLength) v;
             bits' = bits + sourceWordLength
         in case regroupEmit resultWordLength maxResultInt accumulator' bits' result of
              None \<Rightarrow> None
            | Some (bits'', result') \<Rightarrow>
                regroupLoop sourceWordLength resultWordLength maxResultInt rest
                  accumulator' bits'' result'))"

text \<open>Vocabulary: every element of a list is a word of the given length.\<close>

definition inWordRange :: "int \<Rightarrow> int list \<Rightarrow> bool" where
  "inWordRange w xs = list_all (\<lambda>x. 0 \<le> x \<and> x < 2 ^ nat w) xs"

definition regroupBits ::
  "int list \<Rightarrow> int \<Rightarrow> int \<Rightarrow> bool \<Rightarrow> (BitRegroupingError + int list) option" where
  "regroupBits bin sourceWordLength resultWordLength padding =
     (let maxResultInt = js_shl 1 resultWordLength - 1
      in case regroupLoop sourceWordLength resultWordLength maxResultInt bin 0 0 [] of
           None \<Rightarrow> None
         | Some (Inl e) \<Rightarrow> Some (Inl e)
         | Some (Inr (accumulator, bits, result)) \<Rightarrow>
             (if padding then
                (if bits > 0
                 then Some (Inr (result @
                        [js_and (js_shl accumulator (resultWordLength - bits)) maxResultInt]))
                 else Some (Inr result))
              else if bits \<ge> sourceWordLength then Some (Inl hasDisallowedPadding)
              else if js_and (js_shl accumulator (resultWordLength - bits)) maxResultInt > 0
                then Some (Inl requiresDisallowedPadding)
              else Some (Inr result)))"

text \<open>
  \<open>isBech32\<close>. The regular expression \<open>[^qpzry9x8gf2tvdw0s3jn54khce6mua7l]\<close>
  matches when some character of the string is outside the character set. The index of
  the read is \<open>maybeBech32.length\<close>, as the source has it.
\<close>

definition nonBech32Characters_test :: "string \<Rightarrow> bool" where
  "nonBech32Characters_test s = list_ex (\<lambda>c. c \<notin> set bech32CharacterSet) s"

definition isBech32 :: "string \<Rightarrow> bool" where
  "isBech32 maybeBech32 =
     (let expectedPadding = (int (length maybeBech32) * 5) mod 8;
          last5Bits = bech32CharacterSetIndex (charAt maybeBech32 (length maybeBech32));
          onlyBech32Characters = \<not> nonBech32Characters_test maybeBech32;
          noExcessivePadding = expectedPadding < 5;
          mask = js_shl 1 expectedPadding - 1;
          expectedPaddingIsZeroFilled = (js_and (toInt32_Number last5Bits) mask = 0)
      in onlyBech32Characters \<and> noExcessivePadding \<and> expectedPaddingIsZeroFilled)"


section \<open>The BCH instruction set (bch-instruction-sets.ts)\<close>

text \<open>A \<open>Uint8Array\<close> is a list of bytes; \<open>a[i]\<close> is \<open>undefined\<close> out of range.\<close>

type_synonym byte = "8 word"
type_synonym bytes = "byte list"

definition byteAt :: "bytes \<Rightarrow> nat \<Rightarrow> byte option" where
  "byteAt a i = (if i < length a then Some (a ! i) else None)"

text \<open>
  An element of the array that \<open>parseBytecode\<close> returns: the opcode, the data of a
  push, and the marker of a malformed (truncated) instruction.
\<close>

record AuthenticationInstruction =
  opcode :: nat
  data :: "bytes option"
  malformed :: bool

text \<open>
  The error enumerations \<open>AuthenticationErrorCommon\<close> and
  \<open>AuthenticationErrorBCH\<close>: the members this file uses, and one constructor for
  every other error a virtual machine can set.
\<close>

datatype AuthenticationError =
  exceededMaximumBytecodeLengthUnlocking
  | malformedUnlockingBytecode
  | exceededMaximumBytecodeLengthLocking
  | malformedLockingBytecode
  | requiresPushOnly
  | malformedP2shBytecode
  | otherAuthenticationError string

text \<open>
  Modelled from the spec: the type \<open>AuthenticationProgramStateBCH\<close> is declared in
  bch-types.ts, which is not among the sources. The spec gives the program state as
  \<open>{instructions, ip, stack, alternateStack, executionStack, lastCodeSeparator,
  operationCount, error?, externalState}\<close>. The stack is an array whose top is its
  last element. The external state is a type parameter.
\<close>

record 'x AuthenticationProgramState =
  instructions :: "AuthenticationInstruction list"
  ip :: nat
  stack :: "bytes list"
  alternateStack :: "bytes list"
  executionStack :: "bool list"
  lastCodeSeparator :: int
  operationCount :: nat
  error :: "AuthenticationError option"
  externalState :: 'x

text \<open>
  Modelled from the spec: the type \<open>AuthenticationProgramBCH\<close> is declared in
  bch-types.ts, which is not among the sources. \<open>evaluate\<close> reads
  \<open>program.spendingTransaction.inputs[program.inputIndex].unlockingBytecode\<close> and
  \<open>program.sourceOutput.lockingBytecode\<close>; the rest of the program is the extension
  of the record.
\<close>

record Input =
  unlockingBytecode :: bytes

record AuthenticationProgram =
  inputIndex :: nat
  inputs :: "Input list"
  lockingBytecode :: bytes

text \<open>
  Modelled from the spec: the opcode values of \<open>OpcodesBCH\<close> (bch-opcodes.ts is not
  among the sources). The spec gives the P2SH pattern as
  \<open>OP_HASH160(0xa9) OP_PUSHBYTES_20(0x14) <20 bytes> OP_EQUAL(0x87)\<close> and
  \<open>OP_1..OP_16\<close> as \<open>0x51..0x60\<close>.
\<close>

definition OP_HASH160 :: nat where "OP_HASH160 = 0xa9"
definition OP_PUSHBYTES_20 :: nat where "OP_PUSHBYTES_20 = 0x14"
definition OP_EQUAL :: nat where "OP_EQUAL = 0x87"
definition OP_16 :: nat where "OP_16 = 0x60"

text \<open>
  Modelled from the spec: \<open>ConsensusCommon.maximumBytecodeLength\<close> (common.ts is not
  among the sources); the spec gives the maximum bytecode length as 10000.
\<close>

definition maximumBytecodeLength :: nat where "maximumBytecodeLength = 10000"

text \<open>
  Modelled from the spec: \<open>applyError\<close> (common.ts is not among the sources). The
  spec: an error sets \<open>state.error\<close>.
\<close>

definition applyError ::
  "AuthenticationError \<Rightarrow> 'x AuthenticationProgramState \<Rightarrow> 'x AuthenticationProgramState" where
  "applyError e state = state\<lparr>error := Some e\<rparr>"

text \<open>
  Modelled from the spec: \<open>createAuthenticationProgramStateCommon\<close> (common.ts is not
  among the sources). The spec: a fresh program state is created per script evaluation,
  over the given instructions, with the given stack and external state. The instruction
  pointer and the operation count start at 0, the alternate and execution stacks empty,
  no code separator seen (-1), no error.
\<close>

definition createAuthenticationProgramStateCommon ::
  "AuthenticationInstruction list \<Rightarrow> bytes list \<Rightarrow> 'x \<Rightarrow> 'x AuthenticationProgramState" where
  "createAuthenticationProgramStateCommon instrs stack0 external =
     \<lparr>instructions = instrs, ip = 0, stack = stack0, alternateStack = [],
      executionStack = [], lastCodeSeparator = - 1, operationCount = 0, error = None,
      externalState = external\<rparr>"

text \<open>
  Modelled from the spec: \<open>cloneStack\<close> (common.ts is not among the sources) copies
  the array. Arrays are values here, so the copy is the list itself.
\<close>

definition cloneStack :: "bytes list \<Rightarrow> bytes list" where
  "cloneStack s = s"

text \<open>
  Modelled from the spec: \<open>stackItemIsTruthy\<close> (common.ts is not among the sources).
  The spec: an item is truthy when it is non-empty and not all-zero except an optional
  negative-zero sign bit. The scan: a non-zero byte before the last one makes the item
  truthy; the last byte does when it is neither 0 nor the sign bit 0x80 alone.
\<close>

fun stackItemIsTruthy :: "bytes \<Rightarrow> bool" where
  "stackItemIsTruthy [] = False"
| "stackItemIsTruthy [b] = (b \<noteq> 0 \<and> b \<noteq> 0x80)"
| "stackItemIsTruthy (b # bs) = (b \<noteq> 0 \<or> stackItemIsTruthy bs)"

text \<open>The enum \<open>PayToScriptHash\<close> is inlined: length 3, last element 2.\<close>

definition isPayToScriptHash :: "AuthenticationInstruction list \<Rightarrow> bool" where
  "isPayToScriptHash verificationInstructions =
     (length verificationInstructions = 3 \<and>
      opcode (verificationInstructions ! 0) = OP_HASH160 \<and>
      opcode (verificationInstructions ! 1) = OP_PUSHBYTES_20 \<and>
      opcode (verificationInstructions ! 2) = OP_EQUAL)"

text \<open>
  \<open>isWitnessProgram\<close>, with the constants of the enum \<open>SegWit\<close>. A comparison with
  \<open>undefined\<close> is false, and \<open>undefined + 2\<close> is NaN, equal to no length.
\<close>

definition isWitnessProgram :: "bytes \<Rightarrow> bool" where
  "isWitnessProgram bytecode =
     (let correctLength = (length bytecode \<ge> 4 \<and> length bytecode \<le> 42);
          validVersionPush =
            (case byteAt bytecode 0 of
               None \<Rightarrow> False
             | Some b0 \<Rightarrow> unat b0 = 0 \<or> (unat b0 \<ge> 81 \<and> unat b0 \<le> 96));
          correctLengthByte =
            (case byteAt bytecode 1 of
               None \<Rightarrow> False
             | Some b1 \<Rightarrow> unat b1 + 2 = length bytecode)
      in correctLength \<and> validVersionPush \<and> correctLengthByte)"

definition isPushOperation :: "nat \<Rightarrow> bool" where
  "isPushOperation opc = (opc < OP_16)"

text \<open>
  The constant \<open>unlockingResult\<close> of \<open>evaluate\<close>: the chain of conditional
  expressions. \<open>parseBytecode\<close> and \<open>authenticationInstructionsAreMalformed\<close>
  are imported from instruction-sets.ts, which is not among the sources: the model takes
  the second as a parameter, and the first through the instruction lists already parsed.
  \<open>stateEvaluate\<close> is a parameter of \<open>evaluate\<close> in the source; it is a function
  of the state it is given, as the spec has operations.
\<close>

definition unlockingResult ::
  "(AuthenticationInstruction list \<Rightarrow> bool)
   \<Rightarrow> ('x AuthenticationProgramState \<Rightarrow> 'x AuthenticationProgramState)
   \<Rightarrow> bytes \<Rightarrow> bytes \<Rightarrow> AuthenticationInstruction list \<Rightarrow> AuthenticationInstruction list
   \<Rightarrow> 'x AuthenticationProgramState \<Rightarrow> 'x AuthenticationProgramState" where
  "unlockingResult authenticationInstructionsAreMalformed stateEvaluate
     unlockingBytecode' lockingBytecode' unlockingInstructions lockingInstructions initialState =
     (if length unlockingBytecode' > maximumBytecodeLength
      then applyError exceededMaximumBytecodeLengthUnlocking initialState
      else if authenticationInstructionsAreMalformed unlockingInstructions
      then applyError malformedUnlockingBytecode initialState
      else if length lockingBytecode' > maximumBytecodeLength
      then applyError exceededMaximumBytecodeLengthLocking initialState
      else if authenticationInstructionsAreMalformed lockingInstructions
      then applyError malformedLockingBytecode initialState
      else if list_all (\<lambda>instruction. isPushOperation (opcode instruction))
                (instructions initialState)
      then stateEvaluate initialState
      else applyError requiresPushOnly initialState)"

text \<open>
  \<open>p2shStack.pop() ?? Uint8Array.of()\<close>: the popped item, or the empty array when the
  stack is empty, and the stack that remains.
\<close>

definition popOrEmpty :: "bytes list \<Rightarrow> bytes \<times> bytes list" where
  "popOrEmpty s = (if s = [] then ([], []) else (last s, butlast s))"

text \<open>
  \<open>evaluate\<close> of \<open>createInstructionSetBCH\<close>. Reading
  \<open>program.spendingTransaction.inputs[program.inputIndex]\<close> out of range gives
  \<open>undefined\<close>, whose destructuring throws.
  \<open>createAuthenticationProgramExternalStateCommon\<close> (common.ts is not among the
  sources) is a parameter.
\<close>

definition evaluate ::
  "(bytes \<Rightarrow> AuthenticationInstruction list)
   \<Rightarrow> (AuthenticationInstruction list \<Rightarrow> bool)
   \<Rightarrow> ('p AuthenticationProgram_scheme \<Rightarrow> 'x)
   \<Rightarrow> 'p AuthenticationProgram_scheme
   \<Rightarrow> ('x AuthenticationProgramState \<Rightarrow> 'x AuthenticationProgramState)
   \<Rightarrow> js_exception + 'x AuthenticationProgramState" where
  "evaluate parseBytecode authenticationInstructionsAreMalformed
     createAuthenticationProgramExternalStateCommon program stateEvaluate =
     (if inputIndex program \<ge> length (inputs program) then Inl TypeError
      else
        (let unlockingBytecode' = unlockingBytecode (inputs program ! inputIndex program);
             lockingBytecode' = lockingBytecode program;
             unlockingInstructions = parseBytecode unlockingBytecode';
             lockingInstructions = parseBytecode lockingBytecode';
             externalState' = createAuthenticationProgramExternalStateCommon program;
             initialState =
               createAuthenticationProgramStateCommon unlockingInstructions [] externalState';
             unlockingResult' =
               unlockingResult authenticationInstructionsAreMalformed stateEvaluate
                 unlockingBytecode' lockingBytecode' unlockingInstructions lockingInstructions
                 initialState
         in if error unlockingResult' \<noteq> None then Inr unlockingResult'
            else
              (let lockingResult =
                     stateEvaluate
                       (createAuthenticationProgramStateCommon lockingInstructions
                          (stack unlockingResult') externalState')
               in if \<not> isPayToScriptHash lockingInstructions then Inr lockingResult
                  else
                    (let (p2shScript, p2shStack) = popOrEmpty (cloneStack (stack unlockingResult'))
                     in if p2shStack = [] \<and> isWitnessProgram p2shScript then Inr lockingResult
                        else
                          (let p2shInstructions = parseBytecode p2shScript
                           in if authenticationInstructionsAreMalformed p2shInstructions
                              then Inr (lockingResult\<lparr>error := Some malformedP2shBytecode\<rparr>)
                              else Inr (stateEvaluate
                                     (createAuthenticationProgramStateCommon p2shInstructions
                                        p2shStack externalState')))))))"

text \<open>\<open>verify\<close> of \<open>createInstructionSetBCH\<close>.\<close>

definition verify :: "'x AuthenticationProgramState \<Rightarrow> bool" where
  "verify state =
     (error state = None \<and>
      length (executionStack state) = 0 \<and>
      length (stack state) = 1 \<and>
      stackItemIsTruthy (stack state ! 0))"


section \<open>The instruction parser, from the spec\<close>

text \<open>
  Modelled from the spec: \<open>parseBytecode\<close> and
  \<open>authenticationInstructionsAreMalformed\<close> (instruction-sets.ts is not among the
  sources). The spec: the parser walks the byte stream; an opcode is a push whose payload
  length is fixed (\<open>OP_PUSHBYTES_1..75\<close>, and \<open>OP_0\<close> with no payload) or read
  from the next 1, 2 or 4 little-endian bytes (\<open>OP_PUSHDATA1/2/4\<close>); when the
  declared payload exceeds the remaining tail, it emits a final malformed instruction
  and stops. Instructions are malformed when the last element carries the marker. The
  functions of the source take both as parameters; these definitions instantiate them
  at concrete inputs.
\<close>

definition littleEndian :: "bytes \<Rightarrow> nat" where
  "littleEndian bs = foldr (\<lambda>b n. unat b + 256 * n) bs 0"

definition lengthBytes :: "nat \<Rightarrow> nat" where
  "lengthBytes opc = (if opc = 0x4c then 1 else if opc = 0x4d then 2 else if opc = 0x4e then 4 else 0)"

function parseBytecode :: "bytes \<Rightarrow> AuthenticationInstruction list" where
  "parseBytecode [] = []"
| "parseBytecode (b # rest) =
     (let opc = unat b in
      if opc > 0x4e
      then \<lparr>opcode = opc, data = None, malformed = False\<rparr> # parseBytecode rest
      else if length rest < lengthBytes opc
      then [\<lparr>opcode = opc, data = Some rest, malformed = True\<rparr>]
      else
        (let n = (if opc \<le> 0x4b then opc else littleEndian (take (lengthBytes opc) rest));
             payload = drop (lengthBytes opc) rest
         in if length payload < n
            then [\<lparr>opcode = opc, data = Some payload, malformed = True\<rparr>]
            else \<lparr>opcode = opc, data = Some (take n payload), malformed = False\<rparr>
                   # parseBytecode (drop n payload)))"
  by pat_completeness auto
termination
  by (relation "measure length") auto

definition authenticationInstructionsAreMalformed :: "AuthenticationInstruction list \<Rightarrow> bool" where
  "authenticationInstructionsAreMalformed instrs = (instrs \<noteq> [] \<and> malformed (last instrs))"


section \<open>Resolved scripts (resolve.ts)\<close>

text \<open>
  The union \<open>ResolvedSegment\<close>. The four bytecode segments share the type
  \<open>bytecode\<close>, the range and the value; what else they carry (the literal type, the
  opcode, the variable, or the script with its resolved source) is the last argument.
  The type of the value of a bytecode segment is a parameter: the reducer takes the
  segments at their declared type, with a \<open>Uint8Array\<close> as value; the resolver
  stores whatever value identifier resolution returned.
\<close>

datatype LiteralType = BigIntLiteral | HexLiteral | UTF8Literal

datatype 'v ResolvedSegment =
  SegmentPush Range "'v ResolvedSegment list"
  | SegmentEvaluation Range "'v ResolvedSegment list"
  | SegmentBytecode Range 'v "'v BytecodeOrigin"
  | SegmentComment Range string
  | SegmentError Range string
and 'v BytecodeOrigin =
  FromLiteral LiteralType
  | FromOpcode string
  | FromVariable string
  | FromScript string "'v ResolvedSegment list"

type_synonym 'v ResolvedScript = "'v ResolvedSegment list"

section \<open>Script reduction (reduce.ts)\<close>

text \<open>
  \<open>ErrorInformation\<close> is declared in errors.ts, which is not among the sources; the
  object literals of reduce.ts give its two fields, \<open>error\<close> and \<open>range\<close>.
\<close>

datatype ErrorInformation = ErrorInformation (errorText: string) (errorRange: Range)

text \<open>
  \<open>EvaluationSample\<close>: a range and a program state, \<open>undefined\<close> when the trace of
  the virtual machine has no state at the breakpoint.
\<close>

datatype 's EvaluationSample = EvaluationSample (sampleRange: Range) (sampleState: "'s option")

text \<open>
  The trace nodes. The interfaces \<open>ScriptReductionTraceNode\<close>, its container
  extension (with \<open>source\<close>) and its evaluation extension (with \<open>samples\<close>) are
  one type; a key that an object literal does not set is \<open>None\<close>.
\<close>

datatype 's ReductionTraceNode =
  TraceNode (bytecode: bytes) (errors: "ErrorInformation list option") (nodeRange: Range)
    (source: "'s ReductionTraceNode list option") (samples: "'s EvaluationSample list option")

definition emptyReductionTraceNode :: "Range \<Rightarrow> 's ReductionTraceNode" where
  "emptyReductionTraceNode rng = TraceNode [] None rng None None"

text \<open>
  What reduce.ts imports from files that are not among the sources, as parameters of the
  model: \<open>parseBytecode\<close>, \<open>authenticationInstructionsAreNotMalformed\<close>,
  \<open>disassembleBytecode\<close> (applied to \<open>OpcodesCommon\<close>) and \<open>encodeDataPush\<close>.
  A program state is any type with a stack and an optional error; the two field reads
  \<open>state.stack\<close> and the interpolation of \<open>state.error\<close> into a message (the text
  \<open>undefined\<close> when there is no error) are parameters too.
\<close>

record 's ReduceImports =
  parseBytecodeI :: "bytes \<Rightarrow> AuthenticationInstruction list"
  areNotMalformedI :: "AuthenticationInstruction list \<Rightarrow> bool"
  disassembleBytecodeI :: "bytes \<Rightarrow> string"
  encodeDataPushI :: "bytes \<Rightarrow> bytes"
  stateStack :: "'s \<Rightarrow> bytes list"
  stateErrorText :: "'s \<Rightarrow> string"

text \<open>The idiom \<open>x === undefined ? [] : x\<close> on an optional array.\<close>

definition orEmpty :: "'a list option \<Rightarrow> 'a list" where
  "orEmpty x = (case x of None \<Rightarrow> [] | Some xs \<Rightarrow> xs)"

text \<open>
  Modelled from the spec: \<open>flattenBinArray\<close> (utils.ts is not among the sources)
  concatenates the arrays in order.
\<close>

definition flattenBinArray :: "bytes list \<Rightarrow> bytes" where
  "flattenBinArray arrays = concat arrays"

record InstructionAggregation =
  aggInstructions :: "AuthenticationInstruction list"
  lastIp :: nat
  aggRange :: Range

text \<open>
  \<open>InstructionAggregationResult\<close>: the aggregations, and the remaining bytecode and
  range when the last nodes did not parse to well-formed instructions; \<open>success\<close> is
  that nothing remains.
\<close>

record InstructionAggregationResult =
  aggregations :: "InstructionAggregation list"
  remaining :: "(bytes \<times> Range) option"

definition aggregationSuccess :: "InstructionAggregationResult \<Rightarrow> bool" where
  "aggregationSuccess parsed = (remaining parsed = None)"

text \<open>
  The \<open>for\<close> loop of \<open>aggregatedParseReductionTraceNodes\<close>: the nodes that remain,
  then the variables \<open>aggregations\<close>, \<open>ip\<close> and \<open>incomplete\<close>.
\<close>

fun aggregateLoop ::
  "('s, 'm) ReduceImports_scheme \<Rightarrow> 's ReductionTraceNode list \<Rightarrow> InstructionAggregation list
     \<Rightarrow> nat \<Rightarrow> (bytes \<times> Range) option \<Rightarrow> js_exception + InstructionAggregationResult" where
  "aggregateLoop imports [] aggs ipv incomplete =
     Inr \<lparr>aggregations = aggs, remaining = incomplete\<rparr>"
| "aggregateLoop imports (node # nodes) aggs ipv incomplete =
     (let bytecode' =
            (case incomplete of
               None \<Rightarrow> bytecode node
             | Some (ibytecode, irange) \<Rightarrow> flattenBinArray [ibytecode, bytecode node])
      in case (case incomplete of
                 None \<Rightarrow> Inr (nodeRange node)
               | Some (ibytecode, irange) \<Rightarrow> mergeRanges [irange, nodeRange node]) of
           Inl e \<Rightarrow> Inl e
         | Inr range' \<Rightarrow>
             (let parsed = parseBytecodeI imports bytecode'
              in if length parsed = 0
                 then aggregateLoop imports nodes
                        (aggs @ [\<lparr>aggInstructions = [], lastIp = ipv, aggRange = range'\<rparr>])
                        ipv None
                 else if areNotMalformedI imports parsed
                 then aggregateLoop imports nodes
                        (aggs @ [\<lparr>aggInstructions = parsed, lastIp = ipv + length parsed,
                                  aggRange = range'\<rparr>])
                        (ipv + length parsed) None
                 else aggregateLoop imports nodes aggs ipv (Some (bytecode', range'))))"

definition aggregatedParseReductionTraceNodes ::
  "('s, 'm) ReduceImports_scheme \<Rightarrow> 's ReductionTraceNode list
     \<Rightarrow> js_exception + InstructionAggregationResult" where
  "aggregatedParseReductionTraceNodes imports nodes = aggregateLoop imports nodes [] 0 None"

text \<open>\<open>a[i]\<close> on an array, for any integer index: \<open>undefined\<close> out of range.\<close>

definition arrayAt :: "'a list \<Rightarrow> int \<Rightarrow> 'a option" where
  "arrayAt a i = (if 0 \<le> i \<and> nat i < length a then Some (a ! nat i) else None)"

text \<open>\<open>findIndex\<close>: the index of the first element that satisfies the test, or -1.\<close>

fun findIndex :: "('a \<Rightarrow> bool) \<Rightarrow> 'a list \<Rightarrow> int" where
  "findIndex p [] = - 1"
| "findIndex p (x # xs) =
     (if p x then 0 else (let i = findIndex p xs in if i < 0 then - 1 else i + 1))"

record EvaluationPlan =
  breakpoints :: "(nat \<times> Range) list"
  planInstructions :: "AuthenticationInstruction list"

text \<open>
  \<open>InstructionAggregationEvaluationResult\<close>: the samples, and the errors of a failed
  evaluation; \<open>success\<close> is that there are none.
\<close>

record 's AggregationEvaluationResult =
  evalSamples :: "'s EvaluationSample list"
  evalErrors :: "ErrorInformation list option"

definition evaluationSuccess :: "('s, 'm) AggregationEvaluationResult_scheme \<Rightarrow> bool" where
  "evaluationSuccess evaluated = (evalErrors evaluated = None)"

text \<open>
  \<open>evaluateInstructionAggregations\<close>. The virtual machine is used through its
  \<open>stateDebug\<close> method alone, so the parameter \<open>vm\<close> is that method.
\<close>

definition evaluateInstructionAggregations ::
  "('s, 'm) ReduceImports_scheme \<Rightarrow> InstructionAggregation list \<Rightarrow> ('s \<Rightarrow> 's list)
     \<Rightarrow> (AuthenticationInstruction list \<Rightarrow> 's) \<Rightarrow> 's AggregationEvaluationResult" where
  "evaluateInstructionAggregations imports aggs vm getState =
     (let nonEmptyAggregations = filter (\<lambda>aggregation. length (aggInstructions aggregation) > 0) aggs;
          evaluationPlan =
            foldl (\<lambda>plan aggregation.
                     \<lparr>breakpoints = breakpoints plan @ [(lastIp aggregation, aggRange aggregation)],
                      planInstructions = planInstructions plan @ aggInstructions aggregation\<rparr>)
                  \<lparr>breakpoints = [], planInstructions = []\<rparr> nonEmptyAggregations;
          trace = vm (getState (planInstructions evaluationPlan));
          samples' = map (\<lambda>(bip, brange). EvaluationSample brange (arrayAt trace (int bip - 1)))
                       (breakpoints evaluationPlan);
          firstInvalidSample = findIndex (\<lambda>sample. sampleState sample = None) samples';
          errorSample =
            (case arrayAt samples' (firstInvalidSample - 1) of
               Some sample \<Rightarrow> Some sample
             | None \<Rightarrow> arrayAt samples' firstInvalidSample)
      in case errorSample of
           None \<Rightarrow> \<lparr>evalSamples = samples', evalErrors = None\<rparr>
         | Some sample \<Rightarrow>
             \<lparr>evalSamples = samples',
              evalErrors = Some
                [ErrorInformation
                   (case sampleState sample of
                      None \<Rightarrow> ''Failed to reduce evaluation: vm.debug produced no valid program states.''
                    | Some state \<Rightarrow> ''Failed to reduce evaluation: '' @ stateErrorText imports state)
                   (sampleRange sample)]\<rparr>)"

text \<open>
  \<open>SampledEvaluationResult\<close>: the bytecode, the samples, and the errors of a failed
  evaluation.
\<close>

record 's SampledEvaluationResult =
  sampledBytecode :: bytes
  sampledErrors :: "ErrorInformation list option"
  sampledSamples :: "'s EvaluationSample list"

definition sampledSuccess :: "('s, 'm) SampledEvaluationResult_scheme \<Rightarrow> bool" where
  "sampledSuccess evaluated = (sampledErrors evaluated = None)"

text \<open>
  \<open>sampledEvaluateReductionTraceNodes\<close>. With no sample, the only sample is the state
  created over no instructions, at the range of the first aggregation; reading the range
  of \<open>parsed.aggregations[0]\<close> throws when there is no aggregation, and so does reading
  the stack of an undefined state.
\<close>

definition sampledEvaluateReductionTraceNodes ::
  "('s, 'm) ReduceImports_scheme \<Rightarrow> 's ReductionTraceNode list \<Rightarrow> ('s \<Rightarrow> 's list)
     \<Rightarrow> (AuthenticationInstruction list \<Rightarrow> 's) \<Rightarrow> js_exception + 's SampledEvaluationResult" where
  "sampledEvaluateReductionTraceNodes imports nodes vm getState =
     (case aggregatedParseReductionTraceNodes imports nodes of
        Inl e \<Rightarrow> Inl e
      | Inr parsed \<Rightarrow>
          (let evaluated = evaluateInstructionAggregations imports (aggregations parsed) vm getState
           in if aggregationSuccess parsed \<and> evaluationSuccess evaluated
              then
                (case (if length (evalSamples evaluated) > 0 then Inr (evalSamples evaluated)
                       else (case aggregations parsed of
                               [] \<Rightarrow> Inl TypeError
                             | first # _ \<Rightarrow>
                                 Inr [EvaluationSample (aggRange first) (Some (getState []))])) of
                   Inl e \<Rightarrow> Inl e
                 | Inr samples' \<Rightarrow>
                     (case sampleState (last samples') of
                        None \<Rightarrow> Inl TypeError
                      | Some lastState \<Rightarrow>
                          (let lastStackItem =
                                 arrayAt (stateStack imports lastState)
                                   (int (length (stateStack imports lastState)) - 1);
                               evaluationResult =
                                 (case lastStackItem of None \<Rightarrow> [] | Some item \<Rightarrow> item)
                           in Inr \<lparr>sampledBytecode = evaluationResult, sampledErrors = None,
                                   sampledSamples = samples'\<rparr>)))
              else
                Inr \<lparr>sampledBytecode = [],
                     sampledErrors = Some
                       ((case remaining parsed of
                           None \<Rightarrow> []
                         | Some (remainingBytecode, remainingRange) \<Rightarrow>
                             [ErrorInformation
                                (''A sample is malformed and cannot be evaluated: ''
                                   @ disassembleBytecodeI imports remainingBytecode)
                                remainingRange])
                        @ (case evalErrors evaluated of None \<Rightarrow> [] | Some es \<Rightarrow> es)),
                     sampledSamples = evalSamples evaluated\<rparr>))"

text \<open>
  The accumulator of the final \<open>reduce\<close> of \<open>reduceScript\<close>, and its callback.
\<close>

record Reduction =
  redBytecode :: "bytes list"
  redErrors :: "ErrorInformation list option"
  redRanges :: "Range list"

definition reductionStep :: "Reduction \<Rightarrow> 's ReductionTraceNode \<Rightarrow> Reduction" where
  "reductionStep all segment =
     \<lparr>redBytecode = redBytecode all @ [bytecode segment],
      redErrors =
        (if redErrors all \<noteq> None \<or> errors segment \<noteq> None
         then Some ((case redErrors all of None \<Rightarrow> [] | Some es \<Rightarrow> es)
                    @ (case errors segment of None \<Rightarrow> [] | Some es \<Rightarrow> es))
         else None),
      redRanges = redRanges all @ [nodeRange segment]\<rparr>"

text \<open>
  \<open>reduceScript\<close>: \<open>reduceSegment\<close> is the callback of \<open>compiledScript.map\<close>,
  \<open>reduceSegments\<close> the map itself. The virtual machine (its \<open>stateDebug\<close>) and
  \<open>createState\<close> are optional. Merging the ranges of an empty script throws.
\<close>

fun reduceSegment ::
  "('s, 'm) ReduceImports_scheme \<Rightarrow> ('s \<Rightarrow> 's list) option
     \<Rightarrow> (AuthenticationInstruction list \<Rightarrow> 's) option \<Rightarrow> bytes ResolvedSegment
     \<Rightarrow> js_exception + 's ReductionTraceNode"
and reduceSegments ::
  "('s, 'm) ReduceImports_scheme \<Rightarrow> ('s \<Rightarrow> 's list) option
     \<Rightarrow> (AuthenticationInstruction list \<Rightarrow> 's) option \<Rightarrow> bytes ResolvedScript
     \<Rightarrow> js_exception + 's ReductionTraceNode list"
and reduceScript ::
  "('s, 'm) ReduceImports_scheme \<Rightarrow> ('s \<Rightarrow> 's list) option
     \<Rightarrow> (AuthenticationInstruction list \<Rightarrow> 's) option \<Rightarrow> bytes ResolvedScript
     \<Rightarrow> js_exception + 's ReductionTraceNode" where
  "reduceSegment imports vm createState (SegmentBytecode rng val origin) =
     Inr (TraceNode val None rng None None)"
| "reduceSegment imports vm createState (SegmentPush rng val) =
     (if length val = 0 then Inr (emptyReductionTraceNode rng)
      else
        (case reduceScript imports vm createState val of
           Inl e \<Rightarrow> Inl e
         | Inr push \<Rightarrow>
             Inr (TraceNode (encodeDataPushI imports (bytecode push))
                    (case errors push of None \<Rightarrow> None | Some es \<Rightarrow> Some es)
                    rng (Some [push]) None)))"
| "reduceSegment imports vm createState (SegmentEvaluation rng val) =
     (if length val = 0 then Inr (emptyReductionTraceNode rng)
      else
        (let missing =
               Inr (TraceNode []
                      (Some [ErrorInformation
                         ''Both a VM and a createState method are required to reduce evaluations.''
                         rng])
                      rng None None)
         in case vm of
              None \<Rightarrow> missing
            | Some vm' \<Rightarrow>
                (case createState of
                   None \<Rightarrow> missing
                 | Some createState' \<Rightarrow>
                     (case reduceScript imports vm createState val of
                        Inl e \<Rightarrow> Inl e
                      | Inr reductionTrace \<Rightarrow>
                          (case sampledEvaluateReductionTraceNodes imports
                                  (case source reductionTrace of None \<Rightarrow> [] | Some nodes \<Rightarrow> nodes)
                                  vm' createState' of
                             Inl e \<Rightarrow> Inl e
                           | Inr evaluated \<Rightarrow>
                               (let errors' =
                                      (case errors reductionTrace of None \<Rightarrow> [] | Some es \<Rightarrow> es)
                                      @ (case sampledErrors evaluated of
                                           None \<Rightarrow> [] | Some es \<Rightarrow> es)
                                in if length errors' > 0
                                   then Inr (TraceNode [] (Some errors') rng
                                               (Some [reductionTrace])
                                               (Some (sampledSamples evaluated)))
                                   else Inr (TraceNode (sampledBytecode evaluated) None rng
                                               (Some [reductionTrace])
                                               (Some (sampledSamples evaluated)))))))))"
| "reduceSegment imports vm createState (SegmentComment rng val) =
     Inr (emptyReductionTraceNode rng)"
| "reduceSegment imports vm createState (SegmentError rng val) =
     Inr (TraceNode []
            (Some [ErrorInformation
               (''Tried to reduce a BTL script with resolution errors: '' @ val) rng])
            rng None None)"
| "reduceSegments imports vm createState [] = Inr []"
| "reduceSegments imports vm createState (segment # segments) =
     (case reduceSegment imports vm createState segment of
        Inl e \<Rightarrow> Inl e
      | Inr node \<Rightarrow>
          (case reduceSegments imports vm createState segments of
             Inl e \<Rightarrow> Inl e
           | Inr nodes \<Rightarrow> Inr (node # nodes)))"
| "reduceScript imports vm createState compiledScript =
     (case reduceSegments imports vm createState compiledScript of
        Inl e \<Rightarrow> Inl e
      | Inr source' \<Rightarrow>
          (let reduction =
                 foldl reductionStep \<lparr>redBytecode = [], redErrors = None, redRanges = []\<rparr> source'
           in case mergeRanges (redRanges reduction) of
                Inl e \<Rightarrow> Inl e
              | Inr rng \<Rightarrow>
                  Inr (TraceNode (flattenBinArray (redBytecode reduction))
                         (case redErrors reduction of None \<Rightarrow> None | Some es \<Rightarrow> Some es)
                         rng (Some source') None)))"

declare reduceScript.simps [simp del]

text \<open>
  Modelled from the spec: \<open>encodeDataPush\<close> (it is imported from the instruction-set
  files, which are not among the sources). The spec: the minimal Bitcoin push encoding;
  a 0-byte payload gives \<open>OP_0\<close>; a 1-byte payload \<open>x\<close> with \<open>1 \<le> x \<le> 16\<close>
  gives \<open>OP_x\<close> (0x50 + x); otherwise \<open>OP_PUSHBYTES_len\<close> for lengths 1 to 75,
  and \<open>OP_PUSHDATA1/2/4\<close> for longer payloads, the length in 1, 2 or 4 little-endian
  bytes. \<open>reduceScript\<close> takes the function as a parameter; this definition
  instantiates it at concrete inputs.
\<close>

definition toLittleEndian :: "nat \<Rightarrow> nat \<Rightarrow> bytes" where
  "toLittleEndian width n = map (\<lambda>i. of_nat (n div 256 ^ i)) [0..<width]"

definition encodeDataPush :: "bytes \<Rightarrow> bytes" where
  "encodeDataPush payload =
     (if length payload = 0 then [0x00]
      else if length payload = 1 \<and> 1 \<le> unat (payload ! 0) \<and> unat (payload ! 0) \<le> 16
      then [0x50 + payload ! 0]
      else if length payload \<le> 75 then of_nat (length payload) # payload
      else if length payload \<le> 255 then 0x4c # toLittleEndian 1 (length payload) @ payload
      else if length payload \<le> 65535 then 0x4d # toLittleEndian 2 (length payload) @ payload
      else 0x4e # toLittleEndian 4 (length payload) @ payload)"


section \<open>Identifier resolution (resolve.ts)\<close>

text \<open>
  The parse tree that \<open>resolveScriptSegment\<close> walks. \<open>BtlScriptSegment\<close> and
  \<open>MarkedNode\<close> are declared in parse.ts, which is not among the sources; the function
  reads, of every node, its \<open>name\<close>, its \<open>value\<close> and its \<open>start\<close> and
  \<open>end\<close> positions (a line and a column each). A node whose name is none of the
  seven the function knows is \<open>NodeOther\<close>, with that name.
\<close>

record Position =
  line :: int
  column :: int

record Mark =
  markStart :: Position
  markEnd :: Position

datatype BtlNode =
  NodeIdentifier Mark string
  | NodePush Mark BtlScriptSegment
  | NodeEvaluation Mark BtlScriptSegment
  | NodeBigIntLiteral Mark int
  | NodeHexLiteral Mark string
  | NodeUTF8Literal Mark string
  | NodeComment Mark string
  | NodeOther Mark string
and BtlScriptSegment =
  ScriptSegment Mark "BtlNode list"

definition pluckRange :: "Mark \<Rightarrow> Range" where
  "pluckRange node =
     \<lparr>endColumn = column (markEnd node), endLineNumber = line (markEnd node),
      startColumn = column (markStart node), startLineNumber = line (markStart node)\<rparr>"

text \<open>
  JavaScript property lookup. The opcodes, the variables, the scripts and the operations
  of a variable type are plain objects used as dictionaries, and \<open>object[key]\<close> finds
  the properties of the object itself first and then the properties that the object
  inherits from \<open>Object.prototype\<close>. An object is the map of its own properties here;
  a lookup gives the own value, or the inherited member for one of the keys of
  \<open>Object.prototype\<close>, or \<open>undefined\<close>.
\<close>

definition objectPrototypeKeys :: "string list" where
  "objectPrototypeKeys =
     [''constructor'', ''__defineGetter__'', ''__defineSetter__'', ''hasOwnProperty'',
      ''__lookupGetter__'', ''__lookupSetter__'', ''isPrototypeOf'', ''propertyIsEnumerable'',
      ''toString'', ''valueOf'', ''__proto__'', ''toLocaleString'']"

datatype 'a Property = OwnProperty 'a | InheritedProperty string

definition getProperty :: "(string \<rightharpoonup> 'a) \<Rightarrow> string \<Rightarrow> 'a Property option" where
  "getProperty object k =
     (case object k of
        Some v \<Rightarrow> Some (OwnProperty v)
      | None \<Rightarrow> if k \<in> set objectPrototypeKeys then Some (InheritedProperty k) else None)"

text \<open>
  The value that a resolution carries as its \<open>bytecode\<close>. The declared type is
  \<open>Uint8Array\<close>; the resolver passes on, unchecked, what the lookup of the opcode or
  the call of the operation gave, which can also be a member inherited from
  \<open>Object.prototype\<close>, or the String object that the inherited constructor returns.
\<close>

datatype BytecodeValue = Uint8Array bytes | PrototypeMember string | StringObject string

fun propertyValue :: "bytes Property \<Rightarrow> BytecodeValue" where
  "propertyValue (OwnProperty bc) = Uint8Array bc"
| "propertyValue (InheritedProperty member) = PrototypeMember member"

text \<open>
  The result of an \<open>IdentifierResolutionFunction\<close>: the three results with
  \<open>status: true\<close> (of type opcode, variable and script; the last with its
  \<open>source\<close>) and the three with \<open>status: false\<close> (of type variable, unknown and
  script; the last with its \<open>scriptId\<close>). Only the first three carry bytecode.
\<close>

datatype IdentifierResolution =
  ResolvedOpcode BytecodeValue
  | ResolvedVariable BytecodeValue
  | ResolvedScriptIdentifier bytes "BytecodeValue ResolvedScript"
  | FailedVariable string
  | FailedUnknown string
  | FailedScript string string

text \<open>The \<open>bytecode\<close> key of a result: \<open>undefined\<close> on the failures.\<close>

fun resolutionBytecode :: "IdentifierResolution \<Rightarrow> BytecodeValue option" where
  "resolutionBytecode (ResolvedOpcode bc) = Some bc"
| "resolutionBytecode (ResolvedVariable bc) = Some bc"
| "resolutionBytecode (ResolvedScriptIdentifier bc src) = Some (Uint8Array bc)"
| "resolutionBytecode (FailedVariable err) = None"
| "resolutionBytecode (FailedUnknown err) = None"
| "resolutionBytecode (FailedScript err scriptId) = None"

text \<open>
  The literal conversions \<open>bigIntToScriptNumber\<close>, \<open>hexToBin\<close> and
  \<open>utf8ToBin\<close> are imported from files that are not among the sources: parameters.
\<close>

record LiteralCodec =
  bigIntToScriptNumber :: "int \<Rightarrow> bytes"
  hexToBin :: "string \<Rightarrow> bytes"
  utf8ToBin :: "string \<Rightarrow> bytes"

text \<open>
  \<open>resolveScriptSegment\<close>: \<open>resolveNode\<close> is the callback of
  \<open>segment.value.map\<close>, \<open>resolveNodes\<close> the map itself, which goes through the
  children in order. The identifier resolution function can throw, and what it throws
  ends the resolution.
\<close>

fun resolveNode ::
  "LiteralCodec \<Rightarrow> (string \<Rightarrow> js_exception + IdentifierResolution) \<Rightarrow> BtlNode
     \<Rightarrow> js_exception + BytecodeValue ResolvedSegment"
and resolveNodes ::
  "LiteralCodec \<Rightarrow> (string \<Rightarrow> js_exception + IdentifierResolution) \<Rightarrow> BtlNode list
     \<Rightarrow> js_exception + BytecodeValue ResolvedScript"
and resolveScriptSegment ::
  "LiteralCodec \<Rightarrow> (string \<Rightarrow> js_exception + IdentifierResolution) \<Rightarrow> BtlScriptSegment
     \<Rightarrow> js_exception + BytecodeValue ResolvedScript" where
  "resolveNode codec resolveIdentifiers (NodeIdentifier m identifier) =
     (case resolveIdentifiers identifier of
        Inl e \<Rightarrow> Inl e
      | Inr (ResolvedOpcode bc) \<Rightarrow>
          Inr (SegmentBytecode (pluckRange m) bc (FromOpcode identifier))
      | Inr (ResolvedVariable bc) \<Rightarrow>
          Inr (SegmentBytecode (pluckRange m) bc (FromVariable identifier))
      | Inr (ResolvedScriptIdentifier bc src) \<Rightarrow>
          Inr (SegmentBytecode (pluckRange m) (Uint8Array bc) (FromScript identifier src))
      | Inr (FailedVariable err) \<Rightarrow> Inr (SegmentError (pluckRange m) err)
      | Inr (FailedUnknown err) \<Rightarrow> Inr (SegmentError (pluckRange m) err)
      | Inr (FailedScript err scriptId) \<Rightarrow> Inr (SegmentError (pluckRange m) err))"
| "resolveNode codec resolveIdentifiers (NodePush m child) =
     (case resolveScriptSegment codec resolveIdentifiers child of
        Inl e \<Rightarrow> Inl e
      | Inr resolved \<Rightarrow> Inr (SegmentPush (pluckRange m) resolved))"
| "resolveNode codec resolveIdentifiers (NodeEvaluation m child) =
     (case resolveScriptSegment codec resolveIdentifiers child of
        Inl e \<Rightarrow> Inl e
      | Inr resolved \<Rightarrow> Inr (SegmentEvaluation (pluckRange m) resolved))"
| "resolveNode codec resolveIdentifiers (NodeBigIntLiteral m n) =
     Inr (SegmentBytecode (pluckRange m) (Uint8Array (bigIntToScriptNumber codec n))
            (FromLiteral BigIntLiteral))"
| "resolveNode codec resolveIdentifiers (NodeHexLiteral m h) =
     Inr (SegmentBytecode (pluckRange m) (Uint8Array (hexToBin codec h)) (FromLiteral HexLiteral))"
| "resolveNode codec resolveIdentifiers (NodeUTF8Literal m u) =
     Inr (SegmentBytecode (pluckRange m) (Uint8Array (utf8ToBin codec u))
            (FromLiteral UTF8Literal))"
| "resolveNode codec resolveIdentifiers (NodeComment m c) =
     Inr (SegmentComment (pluckRange m) c)"
| "resolveNode codec resolveIdentifiers (NodeOther m name) =
     Inr (SegmentError (pluckRange m) (''Unrecognized segment: '' @ name))"
| "resolveNodes codec resolveIdentifiers [] = Inr []"
| "resolveNodes codec resolveIdentifiers (child # children) =
     (case resolveNode codec resolveIdentifiers child of
        Inl e \<Rightarrow> Inl e
      | Inr segment \<Rightarrow>
          (case resolveNodes codec resolveIdentifiers children of
             Inl e \<Rightarrow> Inl e
           | Inr segments \<Rightarrow> Inr (segment # segments)))"
| "resolveScriptSegment codec resolveIdentifiers (ScriptSegment m children) =
     (case resolveNodes codec resolveIdentifiers children of
        Inl e \<Rightarrow> Inl e
      | Inr resolved \<Rightarrow>
          Inr (if length resolved = 0 then [SegmentComment (pluckRange m) []] else resolved))"

text \<open>
  The compilation environment. A compiler operation is a function of the identifier, the
  compilation data and the environment itself; it is an element of a type \<open>'op\<close> here,
  run by a function that the model takes as a parameter. The operations of one variable
  type are a single operation or an object that maps operation identifiers to
  operations. The scripts, a finite dictionary from identifiers to source texts, are the
  list of the entries of the object, its own properties given by \<open>map_of\<close>.
\<close>

datatype 'op MatchingOperations =
  SingleOperation 'op
  | OperationsById "string \<rightharpoonup> 'op"

record 'op Operations =
  addressData :: "'op MatchingOperations option"
  currentBlockHeight :: "'op MatchingOperations option"
  currentBlockTime :: "'op MatchingOperations option"
  hdKey :: "'op MatchingOperations option"
  key :: "'op MatchingOperations option"
  signingSerialization :: "'op MatchingOperations option"
  walletData :: "'op MatchingOperations option"

datatype VariableType = AddressData | HdKey | Key | WalletData

record AuthenticationTemplateVariable =
  variableType :: VariableType

record 'op CompilationEnvironment =
  opcodes :: "(string \<rightharpoonup> bytes) option"
  operations :: "'op Operations option"
  scripts :: "(string \<times> string) list"
  sourceScriptIds :: "string list option"
  variables :: "(string \<rightharpoonup> AuthenticationTemplateVariable) option"

text \<open>\<open>environment.operations?.field\<close>: \<open>undefined\<close> without operations.\<close>

definition operationsOf ::
  "('op, 'm) CompilationEnvironment_scheme \<Rightarrow> ('op Operations \<Rightarrow> 'op MatchingOperations option)
     \<Rightarrow> 'op MatchingOperations option" where
  "operationsOf environment field =
     (case operations environment of None \<Rightarrow> None | Some ops \<Rightarrow> field ops)"

text \<open>
  What \<open>attemptCompilerOperation\<close> and \<open>resolveVariableIdentifier\<close> return:
  bytecode, an error string, or \<open>false\<close>. A compiler operation of the environment
  returns bytes (\<open>Inr\<close>) or an error string (\<open>Inl\<close>).
\<close>

datatype OperationResult =
  OperationBytecode BytecodeValue
  | OperationError string
  | OperationFalse

fun operationResult :: "string + bytes \<Rightarrow> OperationResult" where
  "operationResult (Inl err) = OperationError err"
| "operationResult (Inr bc) = OperationBytecode (Uint8Array bc)"

text \<open>
  The call \<open>operation(identifier, data, environment)\<close> when the operation is a member
  inherited from \<open>Object.prototype\<close>. It is a plain function call, so the function
  gets \<open>undefined\<close> as \<open>this\<close>. \<open>toString\<close> returns the text
  \<open>[object Undefined]\<close>; \<open>isPrototypeOf\<close> returns \<open>false\<close>, its argument (the
  identifier, a string) being no object; the constructor, \<open>Object\<close>, returns a String
  object for the identifier. The other functions convert \<open>this\<close> to an object first,
  and the value of \<open>__proto__\<close> is no function: the call throws a TypeError.
\<close>

definition callInheritedMember :: "string \<Rightarrow> string \<Rightarrow> js_exception + OperationResult" where
  "callInheritedMember member identifier =
     (if member = ''toString'' then Inr (OperationError ''[object Undefined]'')
      else if member = ''isPrototypeOf'' then Inr OperationFalse
      else if member = ''constructor'' then Inr (OperationBytecode (StringObject identifier))
      else Inl TypeError)"

text \<open>\<open>attemptCompilerOperation\<close>.\<close>

definition attemptCompilerOperation ::
  "('op \<Rightarrow> string \<Rightarrow> 'd \<Rightarrow> ('op, 'm) CompilationEnvironment_scheme \<Rightarrow> string + bytes)
     \<Rightarrow> 'd \<Rightarrow> ('op, 'm) CompilationEnvironment_scheme \<Rightarrow> string
     \<Rightarrow> 'op MatchingOperations option \<Rightarrow> string \<Rightarrow> string option \<Rightarrow> string \<Rightarrow> string
     \<Rightarrow> js_exception + OperationResult" where
  \<open>attemptCompilerOperation runOperation data' environment identifier matchingOperations
     operationExample operationId variableId variableType' =
     (case matchingOperations of
        None \<Rightarrow>
          Inr (OperationError
                 (''The "'' @ variableId @ ''" variable type can not be resolved because the "''
                  @ variableType'
                  @ ''" operation has not been included in this compiler's CompilationEnvironment.''))
      | Some (SingleOperation operation) \<Rightarrow>
          Inr (operationResult (runOperation operation identifier data' environment))
      | Some (OperationsById byId) \<Rightarrow>
          (case operationId of
             None \<Rightarrow>
               Inr (OperationError
                      (''This "'' @ variableId
                       @ ''" variable could not be resolved because this compiler's "''
                       @ variableType'
                       @ ''" operations require an operation identifier, e.g. '' @ [CHR 0x27]
                       @ variableId @ ''.'' @ operationExample @ [CHR 0x27] @ ''.''))
           | Some opId \<Rightarrow>
               (case getProperty byId opId of
                  None \<Rightarrow>
                    Inr (OperationError
                           (''The identifier "'' @ identifier
                            @ ''" could not be resolved because the "'' @ variableId @ ''.''
                            @ opId @ ''" operation is not available to this compiler.''))
                | Some (OwnProperty operation) \<Rightarrow>
                    Inr (operationResult (runOperation operation identifier data' environment))
                | Some (InheritedProperty member) \<Rightarrow> callInheritedMember member identifier)))\<close>

text \<open>\<open>s.split('.')\<close>: the parts between the separators; never an empty array.\<close>

fun splitOn :: "char \<Rightarrow> string \<Rightarrow> string list" where
  "splitOn sep [] = [[]]"
| "splitOn sep (c # cs) =
     (if c = sep then [] # splitOn sep cs
      else (case splitOn sep cs of
              [] \<Rightarrow> [[c]]
            | part # parts \<Rightarrow> (c # part) # parts))"

text \<open>
  \<open>resolveVariableIdentifier\<close>. The default of \<open>operationExample\<close> is written
  out at the calls that do not set it. A variable that the lookup inherits from
  \<open>Object.prototype\<close> has no \<open>type\<close>, so the table of the variable types gives
  \<open>undefined\<close> and the call has neither matching operations nor a variable type, whose
  text in the message is \<open>undefined\<close>.
\<close>

definition resolveVariableIdentifier ::
  "('op \<Rightarrow> string \<Rightarrow> 'd \<Rightarrow> ('op, 'm) CompilationEnvironment_scheme \<Rightarrow> string + bytes)
     \<Rightarrow> 'd \<Rightarrow> ('op, 'm) CompilationEnvironment_scheme \<Rightarrow> string
     \<Rightarrow> js_exception + OperationResult" where
  "resolveVariableIdentifier runOperation data' environment identifier =
     (let parts = splitOn (CHR ''.'') identifier;
          variableId = (case parts of [] \<Rightarrow> [] | v # _ \<Rightarrow> v);
          operationId = (case parts of [] \<Rightarrow> None | [v] \<Rightarrow> None | v # p # _ \<Rightarrow> Some p)
      in if variableId = ''current_block_height''
         then attemptCompilerOperation runOperation data' environment identifier
                (operationsOf environment currentBlockHeight) ''operation_identifier''
                operationId variableId ''currentBlockHeight''
         else if variableId = ''current_block_time''
         then attemptCompilerOperation runOperation data' environment identifier
                (operationsOf environment currentBlockTime) ''operation_identifier''
                operationId variableId ''currentBlockTime''
         else if variableId = ''signing_serialization''
         then attemptCompilerOperation runOperation data' environment identifier
                (operationsOf environment signingSerialization) ''version''
                operationId variableId ''signingSerialization''
         else
           (case (case variables environment of
                    None \<Rightarrow> None
                  | Some vars \<Rightarrow> getProperty vars variableId) of
              None \<Rightarrow> Inr OperationFalse
            | Some (InheritedProperty member) \<Rightarrow>
                attemptCompilerOperation runOperation data' environment identifier
                  None ''operation_identifier'' operationId variableId ''undefined''
            | Some (OwnProperty expectedVariable) \<Rightarrow>
                (case variableType expectedVariable of
                   AddressData \<Rightarrow>
                     attemptCompilerOperation runOperation data' environment identifier
                       (operationsOf environment addressData) ''operation_identifier''
                       operationId variableId ''addressData''
                 | HdKey \<Rightarrow>
                     attemptCompilerOperation runOperation data' environment identifier
                       (operationsOf environment hdKey) ''public_key''
                       operationId variableId ''hdKey''
                 | Key \<Rightarrow>
                     attemptCompilerOperation runOperation data' environment identifier
                       (operationsOf environment key) ''public_key''
                       operationId variableId ''key''
                 | WalletData \<Rightarrow>
                     attemptCompilerOperation runOperation data' environment identifier
                       (operationsOf environment walletData) ''operation_identifier''
                       operationId variableId ''walletData'')))"

text \<open>
  The result of \<open>compileScript\<close>, as resolve.ts reads it: a success with its
  \<open>bytecode\<close> and its \<open>resolve\<close> field, or a failure with its \<open>errors\<close>.
\<close>

datatype CompilationResult =
  CompilationSuccess bytes "BytecodeValue ResolvedScript"
  | CompilationFailure "ErrorInformation list"

text \<open>\<open>array.join(separator)\<close>, and a number in a template literal (an integer, in decimal).\<close>

fun joinWith :: "string \<Rightarrow> string list \<Rightarrow> string" where
  "joinWith sep [] = []"
| "joinWith sep [x] = x"
| "joinWith sep (x # y # ys) = x @ sep @ joinWith sep (y # ys)"

function digits :: "nat \<Rightarrow> string" where
  "digits n = (if n < 10 then [char_of (48 + n)] else digits (n div 10) @ [char_of (48 + n mod 10)])"
  by pat_completeness auto
termination
  by (relation "measure id") auto

declare digits.simps [simp del]

definition numberToString :: "int \<Rightarrow> string" where
  "numberToString k = (if k < 0 then ''-'' @ digits (nat (- k)) else digits (nat k))"

text \<open>
  The two expressions of \<open>resolveScriptIdentifier\<close> on the source script
  identifiers: the test for a circular dependency (the parent identifier is defined, the
  source script identifiers are defined, and they include the parent), and the
  environment of the recursive compilation (the source script identifiers, or none,
  followed by the parent identifier, if any).
\<close>

definition cycleDetected :: "('op, 'm) CompilationEnvironment_scheme \<Rightarrow> string option \<Rightarrow> bool" where
  "cycleDetected environment parentIdentifier =
     (case parentIdentifier of
        None \<Rightarrow> False
      | Some parent \<Rightarrow>
          (case sourceScriptIds environment of
             None \<Rightarrow> False
           | Some ids \<Rightarrow> parent \<in> set ids))"

definition extendedEnvironment ::
  "('op, 'm) CompilationEnvironment_scheme \<Rightarrow> string option
     \<Rightarrow> ('op, 'm) CompilationEnvironment_scheme" where
  "extendedEnvironment environment parentIdentifier =
     environment\<lparr>sourceScriptIds :=
       Some ((case sourceScriptIds environment of None \<Rightarrow> [] | Some ids \<Rightarrow> ids)
             @ (case parentIdentifier of None \<Rightarrow> [] | Some p \<Rightarrow> [p]))\<rparr>"

text \<open>
  \<open>resolveScriptIdentifier\<close>: \<open>None\<close> is the result \<open>false\<close>, \<open>Inl\<close> an error
  string, \<open>Inr\<close> the successful compilation. \<open>compileScript\<close> is imported from
  compile.ts, which is not among the sources: a parameter, which can throw.
\<close>

definition circularDependencyMessage :: "string \<Rightarrow> string list \<Rightarrow> string" where
  \<open>circularDependencyMessage identifier ids =
     ''A circular dependency was encountered. Script "'' @ identifier
     @ ''" relies on itself to be generated. (Parent scripts: '' @ joinWith '', '' ids @ '')''\<close>

definition compilationErrorMessage :: "string \<Rightarrow> ErrorInformation list \<Rightarrow> string" where
  \<open>compilationErrorMessage identifier errs =
     ''Compilation error in resolved script, "'' @ identifier @ ''": ''
     @ joinWith '', ''
         (map (\<lambda>info. errorText info @ '' [''
                 @ numberToString (startLineNumber (errorRange info)) @ '', ''
                 @ numberToString (startColumn (errorRange info)) @ '']'')
            errs)\<close>

definition resolveScriptIdentifier ::
  "(string \<Rightarrow> 'd \<Rightarrow> ('op, 'm) CompilationEnvironment_scheme \<Rightarrow> js_exception + CompilationResult)
     \<Rightarrow> 'd \<Rightarrow> ('op, 'm) CompilationEnvironment_scheme \<Rightarrow> string \<Rightarrow> string option
     \<Rightarrow> js_exception + (string + bytes \<times> BytecodeValue ResolvedScript) option" where
  "resolveScriptIdentifier compileScript data' environment identifier parentIdentifier =
     (if getProperty (map_of (scripts environment)) identifier = None then Inr None
      else if cycleDetected environment parentIdentifier
      then Inr (Some (Inl (circularDependencyMessage identifier
                             (orEmpty (sourceScriptIds environment)))))
      else
        (case compileScript identifier data' (extendedEnvironment environment parentIdentifier) of
           Inl e \<Rightarrow> Inl e
         | Inr (CompilationSuccess bc resolved) \<Rightarrow> Inr (Some (Inr (bc, resolved)))
         | Inr (CompilationFailure errs) \<Rightarrow>
             Inr (Some (Inl (compilationErrorMessage identifier errs)))))"

text \<open>\<open>createIdentifierResolver\<close>: the function it returns, applied to an identifier.\<close>

definition createIdentifierResolver ::
  "(string \<Rightarrow> 'd \<Rightarrow> ('op, 'm) CompilationEnvironment_scheme \<Rightarrow> js_exception + CompilationResult)
     \<Rightarrow> ('op \<Rightarrow> string \<Rightarrow> 'd \<Rightarrow> ('op, 'm) CompilationEnvironment_scheme \<Rightarrow> string + bytes)
     \<Rightarrow> 'd \<Rightarrow> ('op, 'm) CompilationEnvironment_scheme \<Rightarrow> string option
     \<Rightarrow> string \<Rightarrow> js_exception + IdentifierResolution" where
  "createIdentifierResolver compileScript runOperation data' environment scriptId identifier =
     (case (case opcodes environment of
              None \<Rightarrow> None
            | Some table \<Rightarrow> getProperty table identifier) of
        Some opcodeResult \<Rightarrow> Inr (ResolvedOpcode (propertyValue opcodeResult))
      | None \<Rightarrow>
          (case resolveVariableIdentifier runOperation data' environment identifier of
             Inl e \<Rightarrow> Inl e
           | Inr (OperationError variableError) \<Rightarrow> Inr (FailedVariable variableError)
           | Inr (OperationBytecode variableResult) \<Rightarrow> Inr (ResolvedVariable variableResult)
           | Inr OperationFalse \<Rightarrow>
               (case resolveScriptIdentifier compileScript data' environment identifier scriptId of
                  Inl e \<Rightarrow> Inl e
                | Inr (Some (Inl scriptError)) \<Rightarrow> Inr (FailedScript scriptError identifier)
                | Inr (Some (Inr (bc, resolved))) \<Rightarrow> Inr (ResolvedScriptIdentifier bc resolved)
                | Inr None \<Rightarrow>
                    Inr (FailedUnknown (''Unknown identifier '' @ [CHR 0x27] @ identifier
                                        @ [CHR 0x27] @ ''.'')))))"


section \<open>Compilation of a script, from the spec\<close>

text \<open>
  Modelled from the spec: \<open>compileScript\<close> (compile.ts is not among the sources; in
  resolve.ts it is an import, and a parameter of the model above). The spec: BTL text
  goes through the parser, then the resolver builds the resolved tree, then the reducer
  gives the final bytecode; resolution errors are embedded in the resolved script as
  error segments; a compilation that has errors returns \<open>success: false\<close> with the
  list of them, one entry per error; script resolution recursively compiles the script
  with the extended source script identifiers. So: the script of the given identifier
  is parsed and resolved with the identifier resolver of that script (the script is the
  parent of the identifiers it refers to), and the error segments of the resolved script,
  in order and at every depth, are the errors of a failed compilation. The parser, the
  result for an identifier that is no script of the environment, the result for an
  identifier whose lookup in the scripts gives a member inherited from
  \<open>Object.prototype\<close> instead of a source text (which can be an exception), and what
  is done with a resolved script that has no error segment (the reduction) are
  parameters.
\<close>

fun resolutionErrorsOfSegment :: "'v ResolvedSegment \<Rightarrow> ErrorInformation list"
and getResolutionErrors :: "'v ResolvedScript \<Rightarrow> ErrorInformation list" where
  "resolutionErrorsOfSegment (SegmentError rng val) = [ErrorInformation val rng]"
| "resolutionErrorsOfSegment (SegmentPush rng val) = getResolutionErrors val"
| "resolutionErrorsOfSegment (SegmentEvaluation rng val) = getResolutionErrors val"
| "resolutionErrorsOfSegment (SegmentBytecode rng val origin) = []"
| "resolutionErrorsOfSegment (SegmentComment rng val) = []"
| "getResolutionErrors [] = []"
| "getResolutionErrors (segment # segments) =
     resolutionErrorsOfSegment segment @ getResolutionErrors segments"

record ('op, 'd) CompileImports =
  parseScript :: "string \<Rightarrow> ErrorInformation list + BtlScriptSegment"
  missingScript :: "string \<Rightarrow> CompilationResult"
  inheritedScript :: "string \<Rightarrow> js_exception + CompilationResult"
  finishCompilation :: "BytecodeValue ResolvedScript \<Rightarrow> CompilationResult"
  literalCodec :: LiteralCodec
  runOperation :: "'op \<Rightarrow> string \<Rightarrow> 'd \<Rightarrow> 'op CompilationEnvironment \<Rightarrow> string + bytes"

text \<open>
  The recursion goes through the resolver: these two rules state with which arguments
  \<open>resolveScriptSegment\<close> and \<open>createIdentifierResolver\<close> call the function they
  are given, which is what the termination proof needs.
\<close>

lemma resolveScriptSegment_cong [fundef_cong]:
  assumes "codec = codec'" and "seg = seg'" and "\<And>ident. f ident = g ident"
  shows "resolveScriptSegment codec f seg = resolveScriptSegment codec' g seg'"
proof -
  from assms(3) have "f = g" by blast
  with assms(1,2) show ?thesis by simp
qed

lemma createIdentifierResolver_cong [fundef_cong]:
  assumes "run = run'" "d = d'" "env = env'" "sid = sid'" "ident = ident'"
    and "\<And>env''. getProperty (map_of (scripts env')) ident' \<noteq> None \<Longrightarrow>
           \<not> cycleDetected env' sid' \<Longrightarrow>
           env'' = extendedEnvironment env' sid' \<Longrightarrow> c ident' d' env'' = c' ident' d' env''"
  shows "createIdentifierResolver c run d env sid ident =
         createIdentifierResolver c' run' d' env' sid' ident'"
  using assms
  by (auto simp: createIdentifierResolver_def resolveScriptIdentifier_def
      split: option.splits sum.splits OperationResult.splits)

lemma unvisited_scripts_decrease:
  assumes "map_of entries scriptId = Some src" and "scriptId \<notin> set ids"
  shows "card (fst ` set entries - set (ids @ [scriptId])) < card (fst ` set entries - set ids)"
proof -
  from assms(1) have "scriptId \<in> fst ` set entries"
    by (metis map_of_SomeD fst_conv image_eqI)
  with assms(2) have "fst ` set entries - set (ids @ [scriptId]) \<subset> fst ` set entries - set ids"
    by auto
  then show ?thesis by (intro psubset_card_mono) auto
qed

lemma getProperty_own: "getProperty object k = Some (OwnProperty v) \<longleftrightarrow> object k = Some v"
  by (auto simp: getProperty_def split: option.splits)

function compileScript ::
  "('op, 'd) CompileImports \<Rightarrow> string \<Rightarrow> 'd \<Rightarrow> 'op CompilationEnvironment
     \<Rightarrow> js_exception + CompilationResult" where
  "compileScript ci scriptId d environment =
     (case getProperty (map_of (scripts environment)) scriptId of
        None \<Rightarrow> Inr (missingScript ci scriptId)
      | Some (InheritedProperty member) \<Rightarrow> inheritedScript ci member
      | Some (OwnProperty src) \<Rightarrow>
          (case parseScript ci src of
             Inl errs \<Rightarrow> Inr (CompilationFailure errs)
           | Inr segment \<Rightarrow>
               (case resolveScriptSegment (literalCodec ci)
                       (\<lambda>ident. createIdentifierResolver
                                  (\<lambda>i d' e'. compileScript ci i d' e')
                                  (runOperation ci) d environment (Some scriptId) ident)
                       segment of
                  Inl e \<Rightarrow> Inl e
                | Inr resolved \<Rightarrow>
                    (let errs = getResolutionErrors resolved
                     in if errs \<noteq> [] then Inr (CompilationFailure errs)
                        else Inr (finishCompilation ci resolved)))))"
  by pat_completeness auto
termination
proof (relation "measure (\<lambda>(ci, scriptId, d, environment).
           card (fst ` set (scripts environment)
                 - set (orEmpty (sourceScriptIds environment))))", goal_cases)
  case 1
  show ?case by simp
next
  case (2 ci scriptId d environment property src segment ident env'')
  from 2(1,2) have src: "map_of (scripts environment) scriptId = Some src"
    by (simp add: getProperty_own)
  from 2(5) have notin: "scriptId \<notin> set (orEmpty (sourceScriptIds environment))"
    by (auto simp: cycleDetected_def orEmpty_def split: option.splits)
  have "orEmpty (sourceScriptIds env'') = orEmpty (sourceScriptIds environment) @ [scriptId]"
    and "scripts env'' = scripts environment"
    using 2(6) by (simp_all add: extendedEnvironment_def orEmpty_def split: option.splits)
  with unvisited_scripts_decrease [OF src notin] show ?case by simp
qed

declare compileScript.simps [simp del]

text \<open>
  Vocabulary for the script graph. The identifiers of a parse tree, at every depth; an
  identifier resolves as a script when the resolver gets as far as script resolution
  with it and finds it there (the lookup in the opcodes is \<open>undefined\<close>, variable
  resolution returns \<open>false\<close>, and the lookup in the scripts is not \<open>undefined\<close>);
  a script refers to another when the parse tree of its source text has the other's
  identifier, which resolves as a script.
\<close>

fun identifiersOfNode :: "BtlNode \<Rightarrow> string set"
and identifiersOf :: "BtlScriptSegment \<Rightarrow> string set" where
  "identifiersOfNode (NodeIdentifier m identifier) = {identifier}"
| "identifiersOfNode (NodePush m child) = identifiersOf child"
| "identifiersOfNode (NodeEvaluation m child) = identifiersOf child"
| "identifiersOfNode (NodeBigIntLiteral m n) = {}"
| "identifiersOfNode (NodeHexLiteral m h) = {}"
| "identifiersOfNode (NodeUTF8Literal m u) = {}"
| "identifiersOfNode (NodeComment m c) = {}"
| "identifiersOfNode (NodeOther m name) = {}"
| "identifiersOf (ScriptSegment m children) = (\<Union>child \<in> set children. identifiersOfNode child)"

definition resolvesAsScript ::
  "('op \<Rightarrow> string \<Rightarrow> 'd \<Rightarrow> ('op, 'm) CompilationEnvironment_scheme \<Rightarrow> string + bytes)
     \<Rightarrow> 'd \<Rightarrow> ('op, 'm) CompilationEnvironment_scheme \<Rightarrow> string \<Rightarrow> bool" where
  "resolvesAsScript run d environment identifier =
     ((case opcodes environment of
         None \<Rightarrow> None
       | Some table \<Rightarrow> getProperty table identifier) = None \<and>
      resolveVariableIdentifier run d environment identifier = Inr OperationFalse \<and>
      getProperty (map_of (scripts environment)) identifier \<noteq> None)"

definition refersTo ::
  "('op, 'd) CompileImports \<Rightarrow> 'd \<Rightarrow> 'op CompilationEnvironment \<Rightarrow> string \<Rightarrow> string \<Rightarrow> bool" where
  "refersTo ci d environment scriptId identifier =
     ((\<exists>src segment. map_of (scripts environment) scriptId = Some src \<and>
         parseScript ci src = Inr segment \<and> identifier \<in> identifiersOf segment) \<and>
      resolvesAsScript (runOperation ci) d environment identifier)"

text \<open>
  The text by which an error is recognised as a cycle error, and the scripts from which
  a cycle of the script graph can be reached.
\<close>

definition cycleMarker :: string where
  "cycleMarker = ''A circular dependency was encountered.''"




section \<open>Concrete inputs\<close>

text \<open>
  Notation for the concrete inputs at which the theorems below are instantiated: a
  program with one input, and a state evaluation function that runs data pushes only
  (it pushes the data of every push instruction and moves the instruction pointer to the
  end).
\<close>

abbreviation oneInputProgram :: "bytes \<Rightarrow> bytes \<Rightarrow> AuthenticationProgram" where
  "oneInputProgram ub lb \<equiv>
     \<lparr>inputIndex = 0, inputs = [\<lparr>unlockingBytecode = ub\<rparr>], lockingBytecode = lb\<rparr>"

abbreviation pushesOnly :: "unit AuthenticationProgramState \<Rightarrow> unit AuthenticationProgramState" where
  "pushesOnly \<equiv> (\<lambda>s. s\<lparr>ip := length (instructions s),
                          stack := stack s @ List.map_filter data (instructions s)\<rparr>)"

text \<open>
  For the reducer: the imports instantiated with the parser and the push encoding above
  (no disassembly text; the error text of a state is the text of its error), a
  \<open>createState\<close> with an empty stack, and the \<open>stateDebug\<close> of a virtual
  machine that knows data pushes only. It records the state after every instruction it
  runs: a push instruction pushes its data; any other instruction fails, which sets the
  error of the state and ends the trace.
\<close>

abbreviation exampleImports :: "unit AuthenticationProgramState ReduceImports" where
  "exampleImports \<equiv>
     \<lparr>parseBytecodeI = parseBytecode,
      areNotMalformedI = (\<lambda>instrs. \<not> authenticationInstructionsAreMalformed instrs),
      disassembleBytecodeI = (\<lambda>b. []),
      encodeDataPushI = encodeDataPush,
      stateStack = stack,
      stateErrorText = (\<lambda>s. case error s of
                               Some (otherAuthenticationError message) \<Rightarrow> message
                             | _ \<Rightarrow> ''undefined'')\<rparr>"

fun pushesTrace ::
  "unit AuthenticationProgramState \<Rightarrow> AuthenticationInstruction list
     \<Rightarrow> unit AuthenticationProgramState list" where
  "pushesTrace s [] = []"
| "pushesTrace s (instruction # rest) =
     (case data instruction of
        Some pushed \<Rightarrow>
          (let s' = s\<lparr>ip := Suc (ip s), stack := stack s @ [pushed]\<rparr>
           in s' # pushesTrace s' rest)
      | None \<Rightarrow>
          [s\<lparr>ip := Suc (ip s), error := Some (otherAuthenticationError ''unknown opcode'')\<rparr>])"

abbreviation pushesDebug ::
  "unit AuthenticationProgramState \<Rightarrow> unit AuthenticationProgramState list" where
  "pushesDebug \<equiv> (\<lambda>s. pushesTrace s (drop (ip s) (instructions s)))"

abbreviation exampleCreateState ::
  "AuthenticationInstruction list \<Rightarrow> unit AuthenticationProgramState" where
  "exampleCreateState \<equiv> (\<lambda>instrs. createAuthenticationProgramStateCommon instrs [] ())"

abbreviation range0 :: Range where
  "range0 \<equiv> \<lparr>endColumn = 5, endLineNumber = 1, startColumn = 1, startLineNumber = 1\<rparr>"


text \<open>
  For the resolver: an environment with one opcode, one key variable whose operations are
  looked up by identifier, and one script; a compiler operation is the bytes it returns;
  the compilation of a script is given (the bytecode of \<open>OP_1\<close>).
\<close>

abbreviation exampleEnvironment :: "bytes CompilationEnvironment" where
  "exampleEnvironment \<equiv>
     \<lparr>opcodes = Some [''OP_1'' \<mapsto> [0x51]],
      operations = Some
        \<lparr>addressData = None, currentBlockHeight = None, currentBlockTime = None,
         hdKey = None, key = Some (OperationsById [''public_key'' \<mapsto> [0x02, 0x03]]),
         signingSerialization = None, walletData = None\<rparr>,
      scripts = [(''lock'', ''OP_1'')],
      sourceScriptIds = None,
      variables = Some [''owner'' \<mapsto> \<lparr>variableType = Key\<rparr>]\<rparr>"

abbreviation exampleRun ::
  "bytes \<Rightarrow> string \<Rightarrow> unit \<Rightarrow> bytes CompilationEnvironment \<Rightarrow> string + bytes" where
  "exampleRun \<equiv> (\<lambda>operation identifier d environment. Inr operation)"

abbreviation exampleCompile ::
  "string \<Rightarrow> unit \<Rightarrow> bytes CompilationEnvironment \<Rightarrow> js_exception + CompilationResult" where
  "exampleCompile \<equiv> (\<lambda>scriptId d environment.
     Inr (CompilationSuccess [0x51]
            [SegmentBytecode range0 (Uint8Array [0x51]) (FromOpcode ''OP_1'')]))"

text \<open>
  For the compilation of scripts that refer to each other: the parse trees of the five
  source texts \<open>a\<close>, \<open>b\<close>, \<open>b b\<close>, \<open>valueOf\<close> and
  \<open>owner.valueOf b\<close> (identifiers separated by a space, on line 1), no opcodes, no
  variables, and a compilation that succeeds with no bytecode once the resolved script
  has no error segment.
\<close>

abbreviation markAt :: "int \<Rightarrow> int \<Rightarrow> Mark" where
  "markAt startCol endCol \<equiv>
     \<lparr>markStart = \<lparr>line = 1, column = startCol\<rparr>, markEnd = \<lparr>line = 1, column = endCol\<rparr>\<rparr>"

abbreviation exampleParse :: "string \<Rightarrow> ErrorInformation list + BtlScriptSegment" where
  "exampleParse \<equiv> (\<lambda>src.
     if src = ''a'' then Inr (ScriptSegment (markAt 1 2) [NodeIdentifier (markAt 1 2) ''a''])
     else if src = ''b'' then Inr (ScriptSegment (markAt 1 2) [NodeIdentifier (markAt 1 2) ''b''])
     else if src = ''b b''
     then Inr (ScriptSegment (markAt 1 4)
                 [NodeIdentifier (markAt 1 2) ''b'', NodeIdentifier (markAt 3 4) ''b''])
     else if src = ''valueOf''
     then Inr (ScriptSegment (markAt 1 8) [NodeIdentifier (markAt 1 8) ''valueOf''])
     else if src = ''owner.valueOf b''
     then Inr (ScriptSegment (markAt 1 16)
                 [NodeIdentifier (markAt 1 14) ''owner.valueOf'',
                  NodeIdentifier (markAt 15 16) ''b''])
     else Inl [ErrorInformation ''parse error'' (pluckRange (markAt 1 1))])"

abbreviation exampleCompileImports :: "(bytes, unit) CompileImports" where
  "exampleCompileImports \<equiv>
     \<lparr>parseScript = exampleParse,
      missingScript = (\<lambda>scriptId. CompilationFailure
         [ErrorInformation ''no such script'' (pluckRange (markAt 0 0))]),
      inheritedScript = (\<lambda>member. Inr (CompilationFailure
         [ErrorInformation ''no source text'' (pluckRange (markAt 0 0))])),
      finishCompilation = (\<lambda>resolved. CompilationSuccess [] resolved),
      literalCodec = \<lparr>bigIntToScriptNumber = (\<lambda>n. []), hexToBin = (\<lambda>h. []),
                      utf8ToBin = (\<lambda>u. map (\<lambda>c. of_nat (of_char c)) u)\<rparr>,
      runOperation = exampleRun\<rparr>"

abbreviation scriptsEnvironment :: "(string \<times> string) list \<Rightarrow> bytes CompilationEnvironment" where
  "scriptsEnvironment entries \<equiv>
     \<lparr>opcodes = None, operations = None, scripts = entries, sourceScriptIds = None,
      variables = None\<rparr>"


section \<open>Properties of the range merge\<close>

lemma spread_pluck [simp]: "spreadPositions (pluckStartPosition r) (pluckEndPosition r) = r"
  by (simp add: spreadPositions_def pluckStartPosition_def pluckEndPosition_def)

lemma startKey_mergeStep: "startKey (mergeStep m r) = lexMin (startKey m) (startKey r)"
  by (auto simp: mergeStep_def startKey_def lexMin_def lexLe_def spreadPositions_def pluckStartPosition_def)

lemma endKey_mergeStep: "endKey (mergeStep m r) = lexMax (endKey m) (endKey r)"
  by (auto simp: mergeStep_def endKey_def lexMax_def lexLe_def spreadPositions_def pluckEndPosition_def)

lemma range_eqI: "startKey a = startKey b \<Longrightarrow> endKey a = endKey b \<Longrightarrow> a = (b::Range)"
  by (cases a, cases b) (simp add: startKey_def endKey_def)

lemma mergeStep_idem [simp]: "mergeStep r r = r"
  by (rule range_eqI) (simp_all add: startKey_mergeStep endKey_mergeStep lexMin_def lexMax_def)

lemma mergeStep_assoc: "mergeStep (mergeStep a b) c = mergeStep a (mergeStep b c)"
  by (rule range_eqI) (auto simp add: startKey_mergeStep endKey_mergeStep lexMin_def lexMax_def lexLe_def)

lemma mergeStep_commute: "mergeStep a b = mergeStep b a"
  by (rule range_eqI) (auto simp add: startKey_mergeStep endKey_mergeStep lexMin_def lexMax_def lexLe_def prod_eq_iff)

lemma mergeStep_left_commute: "mergeStep a (mergeStep b c) = mergeStep b (mergeStep a c)"
  by (metis mergeStep_assoc mergeStep_commute)


lemma lexLe_refl [simp]: "lexLe a a"
  by (simp add: lexLe_def)

lemma lexLe_trans: "lexLe a b \<Longrightarrow> lexLe b c \<Longrightarrow> lexLe a c"
  by (auto simp: lexLe_def)

lemma lexLe_antisym: "lexLe a b \<Longrightarrow> lexLe b a \<Longrightarrow> a = b"
  by (auto simp: lexLe_def prod_eq_iff)

lemma lexLe_total: "lexLe a b \<or> lexLe b a"
  by (auto simp: lexLe_def)

lemma foldl_mergeStep_start_lower:
  "lexLe (startKey (foldl mergeStep m rs)) (startKey m) \<and>
   (\<forall>r \<in> set rs. lexLe (startKey (foldl mergeStep m rs)) (startKey r))"
proof (induction rs arbitrary: m)
  case Nil
  show ?case by simp
next
  case (Cons r rs)
  have step: "lexLe (startKey (mergeStep m r)) (startKey m)"
             "lexLe (startKey (mergeStep m r)) (startKey r)"
    using lexLe_total [of "startKey m" "startKey r"]
    by (auto simp: startKey_mergeStep lexMin_def)
  from Cons.IH [of "mergeStep m r"] step show ?case
    by (auto intro: lexLe_trans)
qed

lemma foldl_mergeStep_start_mem:
  "startKey (foldl mergeStep m rs) \<in> insert (startKey m) (startKey ` set rs)"
proof (induction rs arbitrary: m)
  case Nil
  show ?case by simp
next
  case (Cons r rs)
  have "startKey (mergeStep m r) = startKey m \<or> startKey (mergeStep m r) = startKey r"
    by (simp add: startKey_mergeStep lexMin_def)
  with Cons.IH [of "mergeStep m r"] show ?case by auto
qed

lemma foldl_mergeStep_end_upper:
  "lexLe (endKey m) (endKey (foldl mergeStep m rs)) \<and>
   (\<forall>r \<in> set rs. lexLe (endKey r) (endKey (foldl mergeStep m rs)))"
proof (induction rs arbitrary: m)
  case Nil
  show ?case by simp
next
  case (Cons r rs)
  have step: "lexLe (endKey m) (endKey (mergeStep m r))"
             "lexLe (endKey r) (endKey (mergeStep m r))"
    using lexLe_total [of "endKey m" "endKey r"]
    by (auto simp: endKey_mergeStep lexMax_def)
  from Cons.IH [of "mergeStep m r"] step show ?case
    by (auto intro: lexLe_trans)
qed

lemma foldl_mergeStep_end_mem:
  "endKey (foldl mergeStep m rs) \<in> insert (endKey m) (endKey ` set rs)"
proof (induction rs arbitrary: m)
  case Nil
  show ?case by simp
next
  case (Cons r rs)
  have "endKey (mergeStep m r) = endKey m \<or> endKey (mergeStep m r) = endKey r"
    by (simp add: endKey_mergeStep lexMax_def)
  with Cons.IH [of "mergeStep m r"] show ?case by auto
qed

lemma mergeRanges_Cons: "mergeRanges (r # rs) = Inr (foldl mergeStep r rs)"
  by (simp add: mergeRanges_def)

lemma mergeRanges_single: "mergeRanges [r] = Inr r"
  by (simp add: mergeRanges_Cons)

lemma foldl_mergeStep_shift:
  "foldl mergeStep (mergeStep a b) rs = mergeStep a (foldl mergeStep b rs)"
  by (induction rs arbitrary: b) (simp_all add: mergeStep_assoc)

lemma mergeRanges_append:
  assumes "mergeRanges xs = Inr a" and "mergeRanges ys = Inr b"
  shows "mergeRanges [a, b] = mergeRanges (xs @ ys)"
proof -
  from assms obtain x xs' y ys' where xs: "xs = x # xs'" and ys: "ys = y # ys'"
    by (cases xs; cases ys) (auto simp: mergeRanges_def)
  from assms have a: "a = foldl mergeStep x xs'" and b: "b = foldl mergeStep y ys'"
    by (simp_all add: xs ys mergeRanges_Cons)
  show ?thesis
    by (simp add: xs ys mergeRanges_Cons a b foldl_mergeStep_shift)
qed

lemma mergeRanges_pair: "mergeRanges [a, b] = Inr (mergeStep a b)"
  by (simp add: mergeRanges_Cons)

lemma mergeRanges_start_min:
  assumes "mergeRanges rs = Inr m"
  shows "startKey m \<in> startKey ` set rs \<and> (\<forall>r \<in> set rs. lexLe (startKey m) (startKey r))"
proof -
  from assms obtain x xs where rs: "rs = x # xs" and m: "m = foldl mergeStep x xs"
    by (cases rs) (auto simp: mergeRanges_def)
  show ?thesis
    using foldl_mergeStep_start_lower [of x xs] foldl_mergeStep_start_mem [of x xs]
    by (simp add: rs m)
qed

lemma mergeRanges_end_max:
  assumes "mergeRanges rs = Inr m"
  shows "endKey m \<in> endKey ` set rs \<and> (\<forall>r \<in> set rs. lexLe (endKey r) (endKey m))"
proof -
  from assms obtain x xs where rs: "rs = x # xs" and m: "m = foldl mergeStep x xs"
    by (cases rs) (auto simp: mergeRanges_def)
  show ?thesis
    using foldl_mergeStep_end_upper [of x xs] foldl_mergeStep_end_mem [of x xs]
    by (simp add: rs m)
qed

lemma mergeRanges_set_cong:
  assumes "set xs = set ys"
  shows "mergeRanges xs = mergeRanges ys"
proof (cases xs)
  case Nil
  with assms show ?thesis by simp
next
  case (Cons x xs')
  with assms obtain y ys' where ys: "ys = y # ys'" by (cases ys) auto
  obtain a b where a: "mergeRanges xs = Inr a" and b: "mergeRanges ys = Inr b"
    by (simp add: Cons ys mergeRanges_Cons)
  have "startKey a = startKey b"
    using mergeRanges_start_min [OF a] mergeRanges_start_min [OF b] assms
    by (auto intro!: lexLe_antisym)
  moreover have "endKey a = endKey b"
    using mergeRanges_end_max [OF a] mergeRanges_end_max [OF b] assms
    by (auto intro!: lexLe_antisym)
  ultimately show ?thesis by (simp add: a b range_eqI)
qed

text \<open>
  Claim C8. \<open>mergeRanges\<close> of a one-element list is that range. On every non-empty
  list it returns the range whose start is the least start of the list and whose end is
  the greatest end, both compared by line first and column second: the start is the start
  of some element and is below or equal to every start, and likewise for the end. The
  operation is associative, both as a binary operation and in that merging the merges of
  two lists is the merge of their concatenation, and it is invariant under permutation of
  the list.
\<close>

theorem mergeRanges_min_max_assoc_perm:
  "mergeRanges [r] = Inr r \<and>
   (\<forall>rs. rs \<noteq> [] \<longrightarrow>
      (\<exists>m. mergeRanges rs = Inr m \<and>
         (\<exists>a \<in> set rs. startLineNumber m = startLineNumber a \<and> startColumn m = startColumn a) \<and>
         (\<forall>a \<in> set rs. startLineNumber m < startLineNumber a \<or>
              (startLineNumber m = startLineNumber a \<and> startColumn m \<le> startColumn a)) \<and>
         (\<exists>a \<in> set rs. endLineNumber m = endLineNumber a \<and> endColumn m = endColumn a) \<and>
         (\<forall>a \<in> set rs. endLineNumber a < endLineNumber m \<or>
              (endLineNumber a = endLineNumber m \<and> endColumn a \<le> endColumn m)))) \<and>
   (\<forall>xs ys a b. mergeRanges xs = Inr a \<longrightarrow> mergeRanges ys = Inr b \<longrightarrow>
      mergeRanges [a, b] = mergeRanges (xs @ ys)) \<and>
   (\<forall>a b c ab bc. mergeRanges [a, b] = Inr ab \<longrightarrow> mergeRanges [b, c] = Inr bc \<longrightarrow>
      mergeRanges [ab, c] = mergeRanges [a, bc]) \<and>
   (\<forall>xs ys. mset xs = mset ys \<longrightarrow> mergeRanges xs = mergeRanges ys)"
proof (intro conjI allI impI)
  show "mergeRanges [r] = Inr r" by (rule mergeRanges_single)
next
  fix rs :: "Range list" assume "rs \<noteq> []"
  then obtain x xs where rs: "rs = x # xs" by (cases rs) auto
  define m where "m = foldl mergeStep x xs"
  have m: "mergeRanges rs = Inr m" by (simp add: rs m_def mergeRanges_Cons)
  from mergeRanges_start_min [OF m] mergeRanges_end_max [OF m]
  have "(\<exists>a \<in> set rs. startLineNumber m = startLineNumber a \<and> startColumn m = startColumn a) \<and>
         (\<forall>a \<in> set rs. startLineNumber m < startLineNumber a \<or>
              (startLineNumber m = startLineNumber a \<and> startColumn m \<le> startColumn a)) \<and>
         (\<exists>a \<in> set rs. endLineNumber m = endLineNumber a \<and> endColumn m = endColumn a) \<and>
         (\<forall>a \<in> set rs. endLineNumber a < endLineNumber m \<or>
              (endLineNumber a = endLineNumber m \<and> endColumn a \<le> endColumn m))"
    by (auto simp: startKey_def endKey_def lexLe_def image_iff)
  with m show "\<exists>m. mergeRanges rs = Inr m \<and>
         (\<exists>a \<in> set rs. startLineNumber m = startLineNumber a \<and> startColumn m = startColumn a) \<and>
         (\<forall>a \<in> set rs. startLineNumber m < startLineNumber a \<or>
              (startLineNumber m = startLineNumber a \<and> startColumn m \<le> startColumn a)) \<and>
         (\<exists>a \<in> set rs. endLineNumber m = endLineNumber a \<and> endColumn m = endColumn a) \<and>
         (\<forall>a \<in> set rs. endLineNumber a < endLineNumber m \<or>
              (endLineNumber a = endLineNumber m \<and> endColumn a \<le> endColumn m))"
    by blast
next
  fix xs ys a b
  assume "mergeRanges xs = Inr a" "mergeRanges ys = Inr b"
  then show "mergeRanges [a, b] = mergeRanges (xs @ ys)" by (rule mergeRanges_append)
next
  fix a b c ab bc
  assume "mergeRanges [a, b] = Inr ab" "mergeRanges [b, c] = Inr bc"
  then show "mergeRanges [ab, c] = mergeRanges [a, bc]"
    by (auto simp: mergeRanges_pair mergeStep_assoc)
next
  fix xs ys :: "Range list" assume "mset xs = mset ys"
  then have "set xs = set ys" by (rule mset_eq_setD)
  then show "mergeRanges xs = mergeRanges ys" by (rule mergeRanges_set_cong)
qed

theorem mergeRanges_min_max_assoc_perm_witness:
  "[\<lparr>endColumn = 9, endLineNumber = 1, startColumn = 4, startLineNumber = 1\<rparr>,
    \<lparr>endColumn = 2, endLineNumber = 3, startColumn = 1, startLineNumber = 2\<rparr>] \<noteq> [] \<and>
   mergeRanges
     [\<lparr>endColumn = 9, endLineNumber = 1, startColumn = 4, startLineNumber = 1\<rparr>,
      \<lparr>endColumn = 2, endLineNumber = 3, startColumn = 1, startLineNumber = 2\<rparr>]
     = Inr \<lparr>endColumn = 2, endLineNumber = 3, startColumn = 4, startLineNumber = 1\<rparr> \<and>
   (\<exists>m. mergeRanges
     [\<lparr>endColumn = 9, endLineNumber = 1, startColumn = 4, startLineNumber = 1\<rparr>,
      \<lparr>endColumn = 2, endLineNumber = 3, startColumn = 1, startLineNumber = 2\<rparr>] = Inr m \<and>
      startLineNumber m = 1 \<and> startColumn m = 4 \<and> endLineNumber m = 3 \<and> endColumn m = 2) \<and>
   mset [\<lparr>endColumn = 9, endLineNumber = 1, startColumn = 4, startLineNumber = 1\<rparr>,
         \<lparr>endColumn = 2, endLineNumber = 3, startColumn = 1, startLineNumber = 2\<rparr>]
     = mset [\<lparr>endColumn = 2, endLineNumber = 3, startColumn = 1, startLineNumber = 2\<rparr>,
             \<lparr>endColumn = 9, endLineNumber = 1, startColumn = 4, startLineNumber = 1\<rparr>] \<and>
   mergeRanges
     [\<lparr>endColumn = 9, endLineNumber = 1, startColumn = 4, startLineNumber = 1\<rparr>,
      \<lparr>endColumn = 2, endLineNumber = 3, startColumn = 1, startLineNumber = 2\<rparr>]
     = mergeRanges
     [\<lparr>endColumn = 2, endLineNumber = 3, startColumn = 1, startLineNumber = 2\<rparr>,
      \<lparr>endColumn = 9, endLineNumber = 1, startColumn = 4, startLineNumber = 1\<rparr>]"
  using mergeRanges_min_max_assoc_perm
    [of "\<lparr>endColumn = 9, endLineNumber = 1, startColumn = 4, startLineNumber = 1\<rparr>"]
  by (simp add: mergeRanges_def mergeStep_def spreadPositions_def pluckStartPosition_def
      pluckEndPosition_def)

section \<open>Properties of the bit regrouping\<close>

lemma regroupEmit_Some_terminates:
  assumes "regroupEmit resultWordLength m acc bits res = Some y"
  shows "\<not> (resultWordLength \<le> 0 \<and> 0 \<le> bits)"
proof (rule regroupEmit.raw_induct
    [where P = "\<lambda>r m acc bits res y. \<not> (r \<le> 0 \<and> 0 \<le> bits)", OF _ assms])
  fix f r m' acc' bits' res' y'
  assume IH: "\<And>r m acc bits res y. f r m acc bits res = Some y \<Longrightarrow> \<not> (r \<le> 0 \<and> 0 \<le> bits)"
    and eq: "(if r \<le> bits'
      then f r m' acc' (bits' - r) (res' @ [js_and (js_sar acc' (bits' - r)) m'])
      else Some (bits', res')) = Some (y' :: int \<times> int list)"
  show "\<not> (r \<le> 0 \<and> 0 \<le> bits')"
  proof
    assume h: "r \<le> 0 \<and> 0 \<le> bits'"
    with eq have "f r m' acc' (bits' - r) (res' @ [js_and (js_sar acc' (bits' - r)) m']) = Some y'"
      by simp
    from IH [OF this] h show False by simp
  qed
qed

lemma regroupEmit_diverges:
  "resultWordLength \<le> 0 \<Longrightarrow> 0 \<le> bits \<Longrightarrow> regroupEmit resultWordLength m acc bits res = None"
  using regroupEmit_Some_terminates [of resultWordLength m acc bits res]
  by (cases "regroupEmit resultWordLength m acc bits res") auto

lemma regroupBits_zero_result_length_diverges: "regroupBits [0] 5 0 True = None"
  by (simp add: regroupBits_def regroupEmit_diverges js_sar_def toInt32_def)

lemma toInt32_id: "- (2 ^ 31) \<le> k \<Longrightarrow> k < 2 ^ 31 \<Longrightarrow> toInt32 k = k"
  by (simp add: toInt32_def signed_take_bit_int_eq_self)

lemma shiftCount_le: "shiftCount k \<le> 31"
proof -
  have "k mod 32 < 32" by simp
  then show ?thesis unfolding shiftCount_def by linarith
qed

lemma toInt32_mask: "n \<le> 31 \<Longrightarrow> toInt32 (toInt32 (2 ^ n) - 1) = 2 ^ n - 1"
proof (cases "n = 31")
  case True
  then show ?thesis by (simp add: toInt32_def)
next
  case False
  assume "n \<le> 31"
  with False have n: "n < 31" by simp
  then have lt: "(2::int) ^ n < 2 ^ 31" by (intro power_strict_increasing) simp_all
  have pos: "(0::int) < 2 ^ n" by simp
  from lt pos have "toInt32 (2 ^ n) = 2 ^ n" by (intro toInt32_id) linarith+
  moreover from lt pos have "toInt32 (2 ^ n - 1) = 2 ^ n - 1" by (intro toInt32_id) linarith+
  ultimately show ?thesis by simp
qed

lemma maxResultInt_toInt32:
  "toInt32 (js_shl 1 r - 1) = 2 ^ shiftCount r - 1"
proof -
  have one: "toInt32 1 = 1" by (simp add: toInt32_def)
  show ?thesis
    using toInt32_mask [OF shiftCount_le [of r]]
    by (simp add: js_shl_def one)
qed

lemma js_and_maxResultInt_bounds:
  assumes "1 \<le> r"
  shows "0 \<le> js_and x (js_shl 1 r - 1) \<and> js_and x (js_shl 1 r - 1) < 2 ^ nat r"
proof -
  let ?M = "(2::int) ^ shiftCount r - 1"
  have M: "0 \<le> ?M" by simp
  have and_eq: "js_and x (js_shl 1 r - 1) = toInt32 x AND ?M"
    by (simp add: js_and_def maxResultInt_toInt32)
  have lo: "0 \<le> toInt32 x AND ?M" using M by simp
  have hi: "toInt32 x AND ?M \<le> ?M" using M by (rule AND_upper2)
  have "r mod 32 \<le> r" using assms by (simp add: zmod_le_nonneg_dividend)
  then have "shiftCount r \<le> nat r" by (simp add: shiftCount_def)
  then have "(2::int) ^ shiftCount r \<le> 2 ^ nat r" by (simp add: power_increasing)
  with lo hi show ?thesis unfolding and_eq by linarith
qed

lemma regroupEmit_returns:
  assumes r: "1 \<le> r" and res: "inWordRange r res"
  shows "\<exists>bits' res'. regroupEmit r (js_shl 1 r - 1) acc bits res = Some (bits', res')
           \<and> inWordRange r res'"
  using res
proof (induction "nat bits" arbitrary: bits res rule: less_induct)
  case less
  show ?case
  proof (cases "r \<le> bits")
    case False
    then show ?thesis using less.prems by (subst regroupEmit.simps) simp
  next
    case True
    let ?res = "res @ [js_and (js_sar acc (bits - r)) (js_shl 1 r - 1)]"
    have smaller: "nat (bits - r) < nat bits" using True r by linarith
    have "inWordRange r ?res"
      using less.prems js_and_maxResultInt_bounds [OF r]
      by (simp add: inWordRange_def)
    from less.hyps [OF smaller this] True show ?thesis
      by (subst regroupEmit.simps) simp
  qed
qed

lemma js_sar_in_range:
  assumes "0 \<le> v" and "v < 2 ^ nat s" and "s \<le> 31"
  shows "js_sar v s = 0"
proof -
  have "(2::int) ^ nat s \<le> 2 ^ 31" using assms(3) by (intro power_increasing) auto
  with assms have v31: "v < 2 ^ 31" by linarith
  with assms(1) have tv: "toInt32 v = v" by (intro toInt32_id) linarith+
  show ?thesis
  proof (cases "0 \<le> s")
    case True
    with assms(3) have "s mod 32 = s" by simp
    then have "shiftCount s = nat s" by (simp add: shiftCount_def)
    with assms show ?thesis by (simp add: js_sar_def tv drop_bit_eq_div)
  next
    case False
    with assms have "v = 0" by simp
    then show ?thesis by (simp add: js_sar_def toInt32_def)
  qed
qed

lemma regroupLoop_returns:
  assumes r: "1 \<le> r" and s: "s \<le> 31"
  shows "inWordRange s bin \<Longrightarrow> inWordRange r res \<Longrightarrow>
         \<exists>acc' bits' res'. regroupLoop s r (js_shl 1 r - 1) bin acc bits res
              = Some (Inr (acc', bits', res')) \<and> inWordRange r res'"
proof (induction bin arbitrary: acc bits res)
  case Nil
  then show ?case by simp
next
  case (Cons v rest)
  from Cons.prems(1) have v: "0 \<le> v" "v < 2 ^ nat s" and rest: "inWordRange s rest"
    by (simp_all add: inWordRange_def)
  have chk: "\<not> (v < 0 \<or> js_sar v s \<noteq> 0)"
    using v js_sar_in_range [OF v s] by simp
  let ?acc = "js_or (js_shl acc s) v"
  from regroupEmit_returns [OF r Cons.prems(2), of ?acc "bits + s"]
  obtain bits' res' where
    emit: "regroupEmit r (js_shl 1 r - 1) ?acc (bits + s) res = Some (bits', res')"
    and res': "inWordRange r res'" by blast
  from Cons.IH [OF rest res', of ?acc bits'] chk emit show ?case
    by (simp add: Let_def)
qed

text \<open>
  Claim C10, as amended. When \<open>sourceWordLength\<close> is at most 31 and
  \<open>resultWordLength\<close> is at least 1, then for every input array whose elements are
  integers in the range from 0 up to, and not including, 2 to the power
  \<open>sourceWordLength\<close>, \<open>regroupBits\<close> with padding returns (it terminates) a
  number array, never one of the error strings, and every element of the array is in the
  range from 0 up to, and not including, 2 to the power \<open>resultWordLength\<close>.
\<close>

theorem regroupBits_padding_in_range:
  assumes "sourceWordLength \<le> 31" and "1 \<le> resultWordLength"
    and "\<forall>v \<in> set bin. 0 \<le> v \<and> v < 2 ^ nat sourceWordLength"
  shows "\<exists>result. regroupBits bin sourceWordLength resultWordLength True = Some (Inr result)
           \<and> (\<forall>x \<in> set result. 0 \<le> x \<and> x < 2 ^ nat resultWordLength)"
proof -
  from assms(3) have bin: "inWordRange sourceWordLength bin"
    by (simp add: inWordRange_def list_all_iff)
  have "inWordRange resultWordLength []" by (simp add: inWordRange_def)
  from regroupLoop_returns [OF assms(2) assms(1) bin this, of 0 0]
  obtain acc' bits' res' where
    loop: "regroupLoop sourceWordLength resultWordLength (js_shl 1 resultWordLength - 1) bin 0 0 []
             = Some (Inr (acc', bits', res'))"
    and res': "inWordRange resultWordLength res'" by blast
  show ?thesis
    using loop res' js_and_maxResultInt_bounds [OF assms(2)]
    by (auto simp: regroupBits_def inWordRange_def list_all_iff)
qed

theorem regroupBits_padding_in_range_witness:
  "(5::int) \<le> 31 \<and> (1::int) \<le> 8 \<and>
   regroupBits [31, 0, 17] 5 8 True = Some (Inr [248, 34]) \<and>
   (\<exists>result. regroupBits [31, 0, 17] 5 8 True = Some (Inr result)
           \<and> (\<forall>x \<in> set result. 0 \<le> x \<and> x < 2 ^ nat 8))"
  using regroupBits_padding_in_range [of 5 8 "[31, 0, 17]"]
  by (simp add: regroupBits_def regroupEmit.simps js_shl_def js_sar_def js_and_def js_or_def
      toInt32_def shiftCount_def)

text \<open>
  Without the bound on \<open>sourceWordLength\<close> the statement fails: shift counts are taken
  modulo 32, so with a source word length of 32 the range check \<open>value >> 32\<close> is
  \<open>value >> 0\<close> and rejects the word 1, which is below 2 to the power 32.
\<close>

theorem regroupBits_word_length_counterexample:
  "(0::int) \<le> 1 \<and> (1::int) < 2 ^ nat 32 \<and>
   regroupBits [1] 32 8 True = Some (Inl integerOutOfRange)"
  by (simp add: regroupBits_def js_sar_def toInt32_def shiftCount_def)

section \<open>The padding check of \<open>isBech32\<close>\<close>

text \<open>
  The read at index \<open>length\<close> is always out of range, so the padding test compares
  \<open>NaN & mask\<close>, which is 0, with 0: \<open>isBech32\<close> is decided by the character
  set and the length alone.
\<close>

lemma isBech32_length_only:
  "isBech32 s = ((\<forall>c \<in> set s. c \<in> set bech32CharacterSet) \<and> (int (length s) * 5) mod 8 < 5)"
  by (auto simp: isBech32_def Let_def charAt_def bech32CharacterSetIndex_def toInt32_Number_def
      nonBech32Characters_test_def list_ex_iff js_and_def toInt32_def)

text \<open>
  Claim C9 states that, on a string of bech32 characters with padding bits,
  \<open>isBech32\<close> holds only if the low padding bits of the final character are zero.
  The string \<open>pp\<close> has 10 bits, so 2 padding bits; its final character \<open>p\<close>
  has the value 1, whose low 2 bits are not zero; \<open>isBech32\<close> accepts it.
\<close>

theorem isBech32_accepts_nonzero_padding:
  "isBech32 ''pp'' \<and>
   list_all (\<lambda>c. c \<in> set bech32CharacterSet) ''pp'' \<and>
   (int (length ''pp'') * 5) mod 8 = 2 \<and>
   bech32CharacterSetIndex (Some (last ''pp'')) = Some 1 \<and>
   js_and 1 (js_shl 1 2 - 1) = 1"
  by (simp add: isBech32_length_only bech32CharacterSet_def bech32CharacterSetIndex_def
      bech32CharacterSetIndexEntries_def js_and_def js_shl_def toInt32_def shiftCount_def)

section \<open>Properties of the BCH instruction set\<close>

lemma stackItemIsTruthy_iff:
  "stackItemIsTruthy item \<longleftrightarrow>
     item \<noteq> [] \<and> \<not> (list_all (\<lambda>b. b = 0) (butlast item) \<and> (last item = 0 \<or> last item = 0x80))"
  by (induction item rule: stackItemIsTruthy.induct) auto

text \<open>
  Claim C3. For every final program state, \<open>verify\<close> accepts if and only if the
  state's error is undefined, its execution stack is empty, its stack holds exactly one
  item, and that item is truthy: non-empty, and not made of zero bytes alone up to an
  optional sign bit (0x80) in the last byte.
\<close>

theorem verify_iff:
  "verify state \<longleftrightarrow>
     error state = None \<and> executionStack state = [] \<and>
     (\<exists>item. stack state = [item] \<and> item \<noteq> [] \<and>
        \<not> (list_all (\<lambda>b. b = 0) (butlast item) \<and> (last item = 0 \<or> last item = 0x80)))"
proof -
  have "length (stack state) = 1 \<longleftrightarrow> (\<exists>item. stack state = [item])"
    by (cases "stack state") auto
  then show ?thesis
    by (auto simp: verify_def stackItemIsTruthy_iff)
qed

theorem verify_iff_witness:
  "verify (createAuthenticationProgramStateCommon [] [[0x01]] ()) \<and>
   \<not> verify (createAuthenticationProgramStateCommon [] [[0x00, 0x80]] ()) \<and>
   \<not> verify (createAuthenticationProgramStateCommon [] [[0x01], [0x01]] ())"
  using verify_iff [of "createAuthenticationProgramStateCommon [] [[0x01]] ()"]
    verify_iff [of "createAuthenticationProgramStateCommon [] [[0x00, 0x80]] ()"]
    verify_iff [of "createAuthenticationProgramStateCommon [] [[0x01], [0x01]] ()"]
  by (simp add: createAuthenticationProgramStateCommon_def)

lemma error_applyError: "error (applyError e state) = Some e"
  by (simp add: applyError_def)

lemma instructions_create:
  "instructions (createAuthenticationProgramStateCommon instrs s x) = instrs"
  by (simp add: createAuthenticationProgramStateCommon_def)

text \<open>
  Claim C2. The pre-checks of \<open>evaluate\<close> are applied in this order, the first
  failure deciding the result: unlocking bytecode longer than 10000 bytes gives
  \<open>exceededMaximumBytecodeLengthUnlocking\<close>; then malformed unlocking instructions
  give \<open>malformedUnlockingBytecode\<close>; then locking bytecode longer than 10000 bytes
  gives \<open>exceededMaximumBytecodeLengthLocking\<close>; then malformed locking instructions
  give \<open>malformedLockingBytecode\<close>; then an unlocking instruction whose opcode is not
  strictly below \<open>OP_16\<close> (0x60) gives \<open>requiresPushOnly\<close>. In each of these cases
  \<open>evaluate\<close> returns the initial state with that error, whatever the state
  evaluation function is. Only when all five checks pass is the unlocking script
  evaluated: the unlocking result is then the evaluation of the initial state.
\<close>

theorem evaluate_prechecks_in_order:
  fixes parseBytecode :: "bytes \<Rightarrow> AuthenticationInstruction list"
    and program :: "'p AuthenticationProgram_scheme"
    and stateEvaluate :: "'x AuthenticationProgramState \<Rightarrow> 'x AuthenticationProgramState"
    and areMalformed :: "AuthenticationInstruction list \<Rightarrow> bool"
    and createExternal :: "'p AuthenticationProgram_scheme \<Rightarrow> 'x"
  assumes input: "inputIndex program < length (inputs program)"
  defines "ub \<equiv> unlockingBytecode (inputs program ! inputIndex program)"
    and "lb \<equiv> lockingBytecode program"
  defines "initialState \<equiv>
     createAuthenticationProgramStateCommon (parseBytecode ub) [] (createExternal program)"
  defines "result \<equiv> evaluate parseBytecode areMalformed createExternal program stateEvaluate"
  shows
    "(length ub > 10000 \<longrightarrow>
        result = Inr (applyError exceededMaximumBytecodeLengthUnlocking initialState)) \<and>
     (length ub \<le> 10000 \<and> areMalformed (parseBytecode ub) \<longrightarrow>
        result = Inr (applyError malformedUnlockingBytecode initialState)) \<and>
     (length ub \<le> 10000 \<and> \<not> areMalformed (parseBytecode ub) \<and> length lb > 10000 \<longrightarrow>
        result = Inr (applyError exceededMaximumBytecodeLengthLocking initialState)) \<and>
     (length ub \<le> 10000 \<and> \<not> areMalformed (parseBytecode ub) \<and> length lb \<le> 10000 \<and>
      areMalformed (parseBytecode lb) \<longrightarrow>
        result = Inr (applyError malformedLockingBytecode initialState)) \<and>
     (length ub \<le> 10000 \<and> \<not> areMalformed (parseBytecode ub) \<and> length lb \<le> 10000 \<and>
      \<not> areMalformed (parseBytecode lb) \<and>
      (\<exists>instruction \<in> set (parseBytecode ub). \<not> opcode instruction < 0x60) \<longrightarrow>
        result = Inr (applyError requiresPushOnly initialState)) \<and>
     (length ub \<le> 10000 \<and> \<not> areMalformed (parseBytecode ub) \<and> length lb \<le> 10000 \<and>
      \<not> areMalformed (parseBytecode lb) \<and>
      (\<forall>instruction \<in> set (parseBytecode ub). opcode instruction < 0x60) \<longrightarrow>
        unlockingResult areMalformed stateEvaluate ub lb (parseBytecode ub) (parseBytecode lb)
          initialState = stateEvaluate initialState \<and>
        (error (stateEvaluate initialState) \<noteq> None \<longrightarrow>
           result = Inr (stateEvaluate initialState))) \<and>
     (\<forall>e. error (applyError e initialState) = Some e)"
proof -
  have push: "list_all (\<lambda>instruction. isPushOperation (opcode instruction))
                (instructions initialState)
              \<longleftrightarrow> (\<forall>instruction \<in> set (parseBytecode ub). opcode instruction < 0x60)"
    by (simp add: initialState_def instructions_create list_all_iff isPushOperation_def OP_16_def)
  have ev: "result =
     (let ur = unlockingResult areMalformed stateEvaluate ub lb (parseBytecode ub)
                 (parseBytecode lb) initialState
      in if error ur \<noteq> None then Inr ur
         else evaluate parseBytecode areMalformed createExternal program stateEvaluate)"
    using input
    by (simp add: result_def evaluate_def Let_def ub_def lb_def initialState_def)
  show ?thesis
    unfolding ev
    by (simp add: unlockingResult_def push maximumBytecodeLength_def error_applyError Let_def)
qed


lemma parse_examples:
  "parseBytecode [0x51] = [\<lparr>opcode = 0x51, data = None, malformed = False\<rparr>]"
  "parseBytecode [0x02, 0x01] = [\<lparr>opcode = 2, data = Some [1], malformed = True\<rparr>]"
  "parseBytecode [0x4c] = [\<lparr>opcode = 0x4c, data = Some [], malformed = True\<rparr>]"
  "parseBytecode [0x51, 0x52, 0x93] =
     [\<lparr>opcode = 0x51, data = None, malformed = False\<rparr>,
      \<lparr>opcode = 0x52, data = None, malformed = False\<rparr>,
      \<lparr>opcode = 0x93, data = None, malformed = False\<rparr>]"
  by (simp_all add: lengthBytes_def)

theorem evaluate_prechecks_in_order_witness:
  "length (replicate 10001 (0x51 :: byte)) > 10000 \<and>
   evaluate parseBytecode authenticationInstructionsAreMalformed (\<lambda>p. ())
     (oneInputProgram (replicate 10001 0x51) [0x51]) pushesOnly =
   Inr (applyError exceededMaximumBytecodeLengthUnlocking
     (createAuthenticationProgramStateCommon (parseBytecode (replicate 10001 0x51)) [] ())) \<and>
   authenticationInstructionsAreMalformed (parseBytecode [0x02, 0x01]) \<and>
   evaluate parseBytecode authenticationInstructionsAreMalformed (\<lambda>p. ())
     (oneInputProgram [0x02, 0x01] [0x51]) pushesOnly =
   Inr (applyError malformedUnlockingBytecode
     (createAuthenticationProgramStateCommon (parseBytecode [0x02, 0x01]) [] ())) \<and>
   evaluate parseBytecode authenticationInstructionsAreMalformed (\<lambda>p. ())
     (oneInputProgram [0x51] (replicate 10001 0x51)) pushesOnly =
   Inr (applyError exceededMaximumBytecodeLengthLocking
     (createAuthenticationProgramStateCommon (parseBytecode [0x51]) [] ())) \<and>
   authenticationInstructionsAreMalformed (parseBytecode [0x4c]) \<and>
   evaluate parseBytecode authenticationInstructionsAreMalformed (\<lambda>p. ())
     (oneInputProgram [0x51] [0x4c]) pushesOnly =
   Inr (applyError malformedLockingBytecode
     (createAuthenticationProgramStateCommon (parseBytecode [0x51]) [] ())) \<and>
   evaluate parseBytecode authenticationInstructionsAreMalformed (\<lambda>p. ())
     (oneInputProgram [0x51, 0x52, 0x93] [0x53, 0x87]) pushesOnly =
   Inr (applyError requiresPushOnly
     (createAuthenticationProgramStateCommon (parseBytecode [0x51, 0x52, 0x93]) [] ())) \<and>
   unlockingResult authenticationInstructionsAreMalformed pushesOnly [0x51] [0x51]
     (parseBytecode [0x51]) (parseBytecode [0x51])
     (createAuthenticationProgramStateCommon (parseBytecode [0x51]) [] ()) =
   pushesOnly (createAuthenticationProgramStateCommon (parseBytecode [0x51]) [] ())"
  using
    evaluate_prechecks_in_order [of "oneInputProgram (replicate 10001 0x51) [0x51]"
      parseBytecode authenticationInstructionsAreMalformed "\<lambda>p. ()" pushesOnly]
    evaluate_prechecks_in_order [of "oneInputProgram [0x02, 0x01] [0x51]"
      parseBytecode authenticationInstructionsAreMalformed "\<lambda>p. ()" pushesOnly]
    evaluate_prechecks_in_order [of "oneInputProgram [0x51] (replicate 10001 0x51)"
      parseBytecode authenticationInstructionsAreMalformed "\<lambda>p. ()" pushesOnly]
    evaluate_prechecks_in_order [of "oneInputProgram [0x51] [0x4c]"
      parseBytecode authenticationInstructionsAreMalformed "\<lambda>p. ()" pushesOnly]
    evaluate_prechecks_in_order [of "oneInputProgram [0x51, 0x52, 0x93] [0x53, 0x87]"
      parseBytecode authenticationInstructionsAreMalformed "\<lambda>p. ()" pushesOnly]
    evaluate_prechecks_in_order [of "oneInputProgram [0x51] [0x51]"
      parseBytecode authenticationInstructionsAreMalformed "\<lambda>p. ()" pushesOnly]
  by (simp add: parse_examples authenticationInstructionsAreMalformed_def lengthBytes_def)

text \<open>
  Claim C1. When \<open>evaluate\<close> reaches the P2SH test (the unlocking result has no
  error) and the opcodes of the locking instructions are exactly
  \<open>OP_HASH160, OP_PUSHBYTES_20, OP_EQUAL\<close>, the unlocking stack is cloned and its
  top item popped as \<open>p2shScript\<close> (the empty array when the stack is empty). If
  the remaining clone is empty and \<open>p2shScript\<close> has a length between 4 and 42, a
  first byte equal to 0x00 or between 0x51 and 0x60, and a second byte that, plus 2, is
  its length, the locking result is returned unchanged. Otherwise \<open>p2shScript\<close> is
  parsed: if malformed, the locking result is returned with the error
  \<open>malformedP2shBytecode\<close>, else \<open>p2shScript\<close> is evaluated with the remaining
  clone as its stack.
\<close>

theorem evaluate_p2sh_segwit_recovery:
  fixes parseBytecode :: "bytes \<Rightarrow> AuthenticationInstruction list"
    and program :: "'p AuthenticationProgram_scheme"
    and stateEvaluate :: "'x AuthenticationProgramState \<Rightarrow> 'x AuthenticationProgramState"
    and areMalformed :: "AuthenticationInstruction list \<Rightarrow> bool"
    and createExternal :: "'p AuthenticationProgram_scheme \<Rightarrow> 'x"
  assumes input: "inputIndex program < length (inputs program)"
  defines "ub \<equiv> unlockingBytecode (inputs program ! inputIndex program)"
    and "lb \<equiv> lockingBytecode program"
  defines "unlocked \<equiv>
     unlockingResult areMalformed stateEvaluate ub lb (parseBytecode ub) (parseBytecode lb)
       (createAuthenticationProgramStateCommon (parseBytecode ub) [] (createExternal program))"
  defines "lockingResult \<equiv>
     stateEvaluate (createAuthenticationProgramStateCommon (parseBytecode lb) (stack unlocked)
       (createExternal program))"
  defines "p2shScript \<equiv> (if stack unlocked = [] then [] else last (stack unlocked))"
    and "p2shStack \<equiv> butlast (stack unlocked)"
  assumes no_error: "error unlocked = None"
    and p2sh: "map opcode (parseBytecode lb) = [0xa9, 0x14, 0x87]"
  shows
    "evaluate parseBytecode areMalformed createExternal program stateEvaluate =
       Inr (if p2shStack = [] \<and>
               4 \<le> length p2shScript \<and> length p2shScript \<le> 42 \<and>
               (p2shScript ! 0 = 0x00 \<or> (0x51 \<le> p2shScript ! 0 \<and> p2shScript ! 0 \<le> 0x60)) \<and>
               unat (p2shScript ! 1) + 2 = length p2shScript
            then lockingResult
            else if areMalformed (parseBytecode p2shScript)
            then lockingResult\<lparr>error := Some malformedP2shBytecode\<rparr>
            else stateEvaluate
                   (createAuthenticationProgramStateCommon (parseBytecode p2shScript) p2shStack
                      (createExternal program)))"
proof -
  from p2sh obtain i0 i1 i2 where lbs: "parseBytecode lb = [i0, i1, i2]"
    and ops: "opcode i0 = 0xa9" "opcode i1 = 0x14" "opcode i2 = 0x87"
    by (auto simp: map_eq_Cons_conv)
  have isP2sh: "isPayToScriptHash (parseBytecode lb)"
    by (simp add: lbs ops isPayToScriptHash_def OP_HASH160_def OP_PUSHBYTES_20_def OP_EQUAL_def)
  have pop: "popOrEmpty (cloneStack (stack unlocked)) = (p2shScript, p2shStack)"
    by (simp add: popOrEmpty_def cloneStack_def p2shScript_def p2shStack_def)
  define segwit where "segwit \<longleftrightarrow>
      4 \<le> length p2shScript \<and> length p2shScript \<le> 42 \<and>
      (p2shScript ! 0 = 0x00 \<or> (0x51 \<le> p2shScript ! 0 \<and> p2shScript ! 0 \<le> 0x60)) \<and>
      unat (p2shScript ! 1) + 2 = length p2shScript"
  have witness: "isWitnessProgram p2shScript \<longleftrightarrow> segwit"
    unfolding segwit_def
    by (auto simp: isWitnessProgram_def byteAt_def Let_def word_le_nat_alt unat_eq_0)
  have "evaluate parseBytecode areMalformed createExternal program stateEvaluate =
       Inr (if p2shStack = [] \<and> segwit
            then lockingResult
            else if areMalformed (parseBytecode p2shScript)
            then lockingResult\<lparr>error := Some malformedP2shBytecode\<rparr>
            else stateEvaluate
                   (createAuthenticationProgramStateCommon (parseBytecode p2shScript) p2shStack
                      (createExternal program)))"
    using input no_error isP2sh
    by (simp add: evaluate_def Let_def pop witness
        flip: ub_def lb_def unlocked_def lockingResult_def)
  then show ?thesis unfolding segwit_def .
qed

lemma parse_p2sh_examples:
  "parseBytecode (0xa9 # 0x14 # replicate 20 0x11 @ [0x87]) =
     [\<lparr>opcode = 0xa9, data = None, malformed = False\<rparr>,
      \<lparr>opcode = 0x14, data = Some (replicate 20 0x11), malformed = False\<rparr>,
      \<lparr>opcode = 0x87, data = None, malformed = False\<rparr>]"
  "parseBytecode [0x01, 0x51] = [\<lparr>opcode = 1, data = Some [0x51], malformed = False\<rparr>]"
  "parseBytecode [0x04, 0x00, 0x02, 0xaa, 0xbb] =
     [\<lparr>opcode = 4, data = Some [0x00, 0x02, 0xaa, 0xbb], malformed = False\<rparr>]"
  "parseBytecode [0x02, 0x02, 0x01] = [\<lparr>opcode = 2, data = Some [0x02, 0x01], malformed = False\<rparr>]"
  by (simp_all add: lengthBytes_def)

theorem evaluate_p2sh_segwit_recovery_witness:
  "map opcode (parseBytecode (0xa9 # 0x14 # replicate 20 0x11 @ [0x87])) = [0xa9, 0x14, 0x87] \<and>
   evaluate parseBytecode authenticationInstructionsAreMalformed (\<lambda>p. ())
     (oneInputProgram [0x01, 0x51] (0xa9 # 0x14 # replicate 20 0x11 @ [0x87])) pushesOnly =
   Inr (pushesOnly (createAuthenticationProgramStateCommon (parseBytecode [0x51]) [] ())) \<and>
   evaluate parseBytecode authenticationInstructionsAreMalformed (\<lambda>p. ())
     (oneInputProgram [0x04, 0x00, 0x02, 0xaa, 0xbb] (0xa9 # 0x14 # replicate 20 0x11 @ [0x87]))
     pushesOnly =
   Inr (pushesOnly (createAuthenticationProgramStateCommon
          (parseBytecode (0xa9 # 0x14 # replicate 20 0x11 @ [0x87]))
          [[0x00, 0x02, 0xaa, 0xbb]] ())) \<and>
   evaluate parseBytecode authenticationInstructionsAreMalformed (\<lambda>p. ())
     (oneInputProgram [0x02, 0x02, 0x01] (0xa9 # 0x14 # replicate 20 0x11 @ [0x87])) pushesOnly =
   Inr ((pushesOnly (createAuthenticationProgramStateCommon
          (parseBytecode (0xa9 # 0x14 # replicate 20 0x11 @ [0x87]))
          [[0x02, 0x01]] ()))\<lparr>error := Some malformedP2shBytecode\<rparr>)"
  using
    evaluate_p2sh_segwit_recovery [of "oneInputProgram [0x01, 0x51]
        (0xa9 # 0x14 # replicate 20 0x11 @ [0x87])"
      authenticationInstructionsAreMalformed pushesOnly parseBytecode "\<lambda>p. ()"]
    evaluate_p2sh_segwit_recovery [of "oneInputProgram [0x04, 0x00, 0x02, 0xaa, 0xbb]
        (0xa9 # 0x14 # replicate 20 0x11 @ [0x87])"
      authenticationInstructionsAreMalformed pushesOnly parseBytecode "\<lambda>p. ()"]
    evaluate_p2sh_segwit_recovery [of "oneInputProgram [0x02, 0x02, 0x01]
        (0xa9 # 0x14 # replicate 20 0x11 @ [0x87])"
      authenticationInstructionsAreMalformed pushesOnly parseBytecode "\<lambda>p. ()"]
  by (simp add: parse_p2sh_examples parse_examples unlockingResult_def maximumBytecodeLength_def
      authenticationInstructionsAreMalformed_def createAuthenticationProgramStateCommon_def
      isPushOperation_def OP_16_def List.map_filter_def del: parseBytecode.simps)

section \<open>Properties of the script reduction\<close>

lemma foldl_reductionStep:
  "foldl reductionStep acc nodes =
     \<lparr>redBytecode = redBytecode acc @ map bytecode nodes,
      redErrors =
        (if redErrors acc \<noteq> None \<or> (\<exists>n \<in> set nodes. errors n \<noteq> None)
         then Some (orEmpty (redErrors acc) @ concat (map (\<lambda>n. orEmpty (errors n)) nodes))
         else None),
      redRanges = redRanges acc @ map nodeRange nodes\<rparr>"
proof (induction nodes arbitrary: acc)
  case Nil
  show ?case by (cases "redErrors acc") (simp_all add: orEmpty_def)
next
  case (Cons n nodes)
  show ?case
    unfolding foldl_Cons Cons.IH
    by (auto simp: reductionStep_def orEmpty_def split: option.splits)
qed

lemma reduceSegments_length:
  "reduceSegments im vm cs segs = Inr nodes \<Longrightarrow> length nodes = length segs"
  by (induction segs arbitrary: nodes) (auto split: sum.splits)



lemma findIndex_range:
  "findIndex p xs = - 1 \<or> (0 \<le> findIndex p xs \<and> nat (findIndex p xs) < length xs)"
  by (induction xs) (auto simp: Let_def)

lemma findIndex_negative_iff: "findIndex p xs < 0 \<longleftrightarrow> (\<forall>x \<in> set xs. \<not> p x)"
  by (induction xs) (auto simp: Let_def)

lemma findIndex_none: "findIndex p xs = - 1 \<Longrightarrow> \<forall>x \<in> set xs. \<not> p x"
  using findIndex_negative_iff [of p xs] by simp

lemma evaluateInstructionAggregations_success:
  assumes "evalErrors (evaluateInstructionAggregations im aggs vm getState) = None"
  shows "\<forall>sample \<in> set (evalSamples (evaluateInstructionAggregations im aggs vm getState)).
           sampleState sample \<noteq> None"
proof -
  define samples' where "samples' = evalSamples (evaluateInstructionAggregations im aggs vm getState)"
  define f where "f = findIndex (\<lambda>sample. sampleState sample = None) samples'"
  have none: "arrayAt samples' f = None"
    using assms
    by (auto simp: evaluateInstructionAggregations_def Let_def samples'_def f_def
        split: option.splits)
  from findIndex_range [of "\<lambda>sample. sampleState sample = None" samples'] none
  have "f = - 1" by (auto simp: f_def arrayAt_def)
  then show ?thesis
    using findIndex_none [of "\<lambda>sample. sampleState sample = None" samples']
    by (auto simp: f_def samples'_def)
qed

lemma aggregateLoop_returns:
  "\<exists>parsed. aggregateLoop im nodes aggs ipv incomplete = Inr parsed \<and>
     (remaining parsed = None \<longrightarrow> (aggs \<noteq> [] \<or> nodes \<noteq> []) \<longrightarrow> aggregations parsed \<noteq> [])"
proof (induction nodes arbitrary: aggs ipv incomplete)
  case Nil
  show ?case by simp
next
  case (Cons node nodes)
  obtain rng where rng:
    "(case incomplete of None \<Rightarrow> Inr (nodeRange node)
      | Some (ibytecode, irange) \<Rightarrow> mergeRanges [irange, nodeRange node]) = Inr rng"
    by (cases incomplete) (auto simp: mergeRanges_pair)
  define bc where "bc = (case incomplete of None \<Rightarrow> bytecode node
      | Some (ibytecode, irange) \<Rightarrow> flattenBinArray [ibytecode, bytecode node])"
  consider (empty) "length (parseBytecodeI im bc) = 0"
    | (ok) "length (parseBytecodeI im bc) \<noteq> 0" "areNotMalformedI im (parseBytecodeI im bc)"
    | (bad) "length (parseBytecodeI im bc) \<noteq> 0" "\<not> areNotMalformedI im (parseBytecodeI im bc)"
    by blast
  then show ?case
  proof cases
    case empty
    with Cons.IH [of "aggs @ [\<lparr>aggInstructions = [], lastIp = ipv, aggRange = rng\<rparr>]" ipv None]
    show ?thesis by (simp add: rng Let_def flip: bc_def)
  next
    case ok
    with Cons.IH [of "aggs @ [\<lparr>aggInstructions = parseBytecodeI im bc,
         lastIp = ipv + length (parseBytecodeI im bc), aggRange = rng\<rparr>]"
        "ipv + length (parseBytecodeI im bc)" None]
    show ?thesis by (simp add: rng Let_def flip: bc_def)
  next
    case bad
    from Cons.IH [of aggs ipv "Some (bc, rng)"] obtain parsed where
      p: "aggregateLoop im nodes aggs ipv (Some (bc, rng)) = Inr parsed"
      and ne: "remaining parsed = None \<longrightarrow> (aggs \<noteq> [] \<or> nodes \<noteq> []) \<longrightarrow> aggregations parsed \<noteq> []"
      by auto
    have "nodes = [] \<Longrightarrow> remaining parsed \<noteq> None" using p by auto
    with p ne bad show ?thesis by (auto simp: rng Let_def simp flip: bc_def)
  qed
qed

lemma arrayAt_top: "arrayAt st (int (length st) - 1) = (if st = [] then None else Some (last st))"
  by (auto simp: arrayAt_def last_conv_nth nat_diff_distrib')

lemma sampledEvaluate_unfold:
  assumes "aggregatedParseReductionTraceNodes im nodes = Inr parsed"
    and "evaluateInstructionAggregations im (aggregations parsed) vm getState = evaluated"
  shows "sampledEvaluateReductionTraceNodes im nodes vm getState =
     (if remaining parsed = None \<and> evalErrors evaluated = None
      then
        (case (if evalSamples evaluated \<noteq> [] then Inr (evalSamples evaluated)
               else (case aggregations parsed of
                       [] \<Rightarrow> Inl TypeError
                     | first # _ \<Rightarrow> Inr [EvaluationSample (aggRange first) (Some (getState []))])) of
           Inl e \<Rightarrow> Inl e
         | Inr samples' \<Rightarrow>
             (case sampleState (last samples') of
                None \<Rightarrow> Inl TypeError
              | Some lastState \<Rightarrow>
                  Inr \<lparr>sampledBytecode =
                         (if stateStack im lastState = [] then []
                          else last (stateStack im lastState)),
                       sampledErrors = None, sampledSamples = samples'\<rparr>))
      else
        Inr \<lparr>sampledBytecode = [],
             sampledErrors = Some
               ((case remaining parsed of
                   None \<Rightarrow> []
                 | Some (remainingBytecode, remainingRange) \<Rightarrow>
                     [ErrorInformation
                        (''A sample is malformed and cannot be evaluated: ''
                           @ disassembleBytecodeI im remainingBytecode)
                        remainingRange])
                @ orEmpty (evalErrors evaluated)),
             sampledSamples = evalSamples evaluated\<rparr>)"
  using assms
  by (simp add: sampledEvaluateReductionTraceNodes_def aggregationSuccess_def
      evaluationSuccess_def Let_def arrayAt_top orEmpty_def
      split: option.splits list.splits sum.splits)

lemma evalErrors_singleton:
  "evaluateInstructionAggregations im aggs vm getState = evaluated \<Longrightarrow>
   evalErrors evaluated = Some es \<Longrightarrow> es \<noteq> []"
  by (auto simp: evaluateInstructionAggregations_def Let_def split: option.splits)

lemma sampledEvaluate_returns:
  assumes "nodes \<noteq> []"
  shows "\<exists>evaluated. sampledEvaluateReductionTraceNodes im nodes vm getState = Inr evaluated \<and>
     (case sampledErrors evaluated of
        None \<Rightarrow>
          sampledSamples evaluated \<noteq> [] \<and>
          (\<exists>state. sampleState (last (sampledSamples evaluated)) = Some state \<and>
             sampledBytecode evaluated =
               (if stateStack im state = [] then [] else last (stateStack im state)))
      | Some es \<Rightarrow> es \<noteq> [] \<and> sampledBytecode evaluated = [])"
proof -
  from aggregateLoop_returns [of im nodes "[]" 0 None] assms obtain parsed where
    p: "aggregatedParseReductionTraceNodes im nodes = Inr parsed"
    and ne: "remaining parsed = None \<Longrightarrow> aggregations parsed \<noteq> []"
    by (auto simp: aggregatedParseReductionTraceNodes_def)
  obtain evaluated where
    e: "evaluateInstructionAggregations im (aggregations parsed) vm getState = evaluated"
    by simp
  note unfold = sampledEvaluate_unfold [OF p e]
  consider (malformed) "remaining parsed \<noteq> None"
    | (failed) "remaining parsed = None" "evalErrors evaluated \<noteq> None"
    | (ok) "remaining parsed = None" "evalErrors evaluated = None"
    by blast
  then show ?thesis
  proof cases
    case malformed
    then show ?thesis
      unfolding unfold by auto
  next
    case failed
    with evalErrors_singleton [OF e] show ?thesis
      unfolding unfold by (auto simp: orEmpty_def)
  next
    case ok
    show ?thesis
    proof (cases "evalSamples evaluated = []")
      case False
      then have "last (evalSamples evaluated) \<in> set (evalSamples evaluated)" by simp
      with evaluateInstructionAggregations_success [of im "aggregations parsed" vm getState] ok
      obtain state where "sampleState (last (evalSamples evaluated)) = Some state"
        by (auto simp: e)
      with ok False show ?thesis
        unfolding unfold by simp
    next
      case True
      from ne [OF ok(1)] obtain first rest where "aggregations parsed = first # rest"
        by (cases "aggregations parsed") auto
      with ok True show ?thesis
        unfolding unfold by simp
    qed
  qed
qed


lemma foldl_evaluationPlan:
  "foldl (\<lambda>plan aggregation.
            \<lparr>breakpoints = breakpoints plan @ [(lastIp aggregation, aggRange aggregation)],
             planInstructions = planInstructions plan @ aggInstructions aggregation\<rparr>)
         plan aggs =
     \<lparr>breakpoints = breakpoints plan @ map (\<lambda>a. (lastIp a, aggRange a)) aggs,
      planInstructions = planInstructions plan @ concat (map aggInstructions aggs)\<rparr>"
  by (induction aggs arbitrary: plan) simp_all

lemma concat_nonempty_aggregations:
  "concat (map aggInstructions (filter (\<lambda>a. aggInstructions a \<noteq> []) aggs)) =
     concat (map aggInstructions aggs)"
  by (induction aggs) simp_all

lemma last_filter_index:
  "filter p xs \<noteq> [] \<Longrightarrow>
     \<exists>k < length xs. last (filter p xs) = xs ! k \<and> (\<forall>j. k < j \<and> j < length xs \<longrightarrow> \<not> p (xs ! j))"
proof (induction xs rule: rev_induct)
  case Nil
  then show ?case by simp
next
  case (snoc x xs)
  show ?case
  proof (cases "p x")
    case True
    then show ?thesis by (intro exI [of _ "length xs"]) (auto simp: less_Suc_eq)
  next
    case False
    with snoc obtain k where k: "k < length xs" "last (filter p xs) = xs ! k"
      "\<forall>j. k < j \<and> j < length xs \<longrightarrow> \<not> p (xs ! j)" by auto
    with False show ?thesis
      by (intro exI [of _ k]) (auto simp: nth_append less_Suc_eq)
  qed
qed

lemma concat_take_all:
  assumes "k < length xs" and "\<forall>j. k < j \<and> j < length xs \<longrightarrow> f (xs ! j) = []"
  shows "concat (map f (take (Suc k) xs)) = concat (map f xs)"
proof -
  have "\<forall>x \<in> set (drop (Suc k) xs). f x = []"
    using assms(2) by (auto simp: in_set_conv_nth)
  then have "concat (map f (drop (Suc k) xs)) = []" by simp
  moreover have "concat (map f xs) =
      concat (map f (take (Suc k) xs)) @ concat (map f (drop (Suc k) xs))"
    by (metis append_take_drop_id concat_append map_append)
  ultimately show ?thesis by simp
qed

text \<open>
  The instruction pointer that an aggregation records is the number of instructions up
  to and including it.
\<close>

lemma aggregateLoop_lastIp:
  assumes "aggregateLoop im nodes aggs ipv incomplete = Inr parsed"
    and "ipv = length (concat (map aggInstructions aggs))"
    and "\<forall>k < length aggs. lastIp (aggs ! k) =
           length (concat (map aggInstructions (take (Suc k) aggs)))"
  shows "\<forall>k < length (aggregations parsed). lastIp (aggregations parsed ! k) =
           length (concat (map aggInstructions (take (Suc k) (aggregations parsed))))"
  using assms
proof (induction nodes arbitrary: aggs ipv incomplete)
  case Nil
  then show ?case by auto
next
  case (Cons node nodes)
  obtain rng where rng:
    "(case incomplete of None \<Rightarrow> Inr (nodeRange node)
      | Some (ibytecode, irange) \<Rightarrow> mergeRanges [irange, nodeRange node]) = Inr rng"
    by (cases incomplete) (auto simp: mergeRanges_pair)
  define bc where "bc = (case incomplete of None \<Rightarrow> bytecode node
      | Some (ibytecode, irange) \<Rightarrow> flattenBinArray [ibytecode, bytecode node])"
  consider (empty) "length (parseBytecodeI im bc) = 0"
    | (ok) "length (parseBytecodeI im bc) \<noteq> 0" "areNotMalformedI im (parseBytecodeI im bc)"
    | (bad) "length (parseBytecodeI im bc) \<noteq> 0" "\<not> areNotMalformedI im (parseBytecodeI im bc)"
    by blast
  then show ?case
  proof cases
    case empty
    let ?aggs = "aggs @ [\<lparr>aggInstructions = [], lastIp = ipv, aggRange = rng\<rparr>]"
    from Cons.prems(1) empty have
      "aggregateLoop im nodes ?aggs ipv None = Inr parsed"
      by (simp add: rng Let_def flip: bc_def)
    moreover have "ipv = length (concat (map aggInstructions ?aggs))"
      using Cons.prems(2) by simp
    moreover have "\<forall>k < length ?aggs. lastIp (?aggs ! k) =
           length (concat (map aggInstructions (take (Suc k) ?aggs)))"
      using Cons.prems(2,3) by (auto simp: nth_append less_Suc_eq)
    ultimately show ?thesis by (rule Cons.IH)
  next
    case ok
    let ?parsed = "parseBytecodeI im bc"
    let ?aggs = "aggs @ [\<lparr>aggInstructions = ?parsed, lastIp = ipv + length ?parsed,
                           aggRange = rng\<rparr>]"
    from Cons.prems(1) ok have
      "aggregateLoop im nodes ?aggs (ipv + length ?parsed) None = Inr parsed"
      by (simp add: rng Let_def flip: bc_def)
    moreover have "ipv + length ?parsed = length (concat (map aggInstructions ?aggs))"
      using Cons.prems(2) by simp
    moreover have "\<forall>k < length ?aggs. lastIp (?aggs ! k) =
           length (concat (map aggInstructions (take (Suc k) ?aggs)))"
      using Cons.prems(2,3) by (auto simp: nth_append less_Suc_eq)
    ultimately show ?thesis by (rule Cons.IH)
  next
    case bad
    from Cons.prems(1) bad have
      "aggregateLoop im nodes aggs ipv (Some (bc, rng)) = Inr parsed"
      by (simp add: rng Let_def flip: bc_def)
    from Cons.IH [OF this Cons.prems(2,3)] show ?thesis .
  qed
qed

lemma evalSamples_case:
  "evalSamples (case errorSample of
                  None \<Rightarrow> \<lparr>evalSamples = s, evalErrors = None\<rparr>
                | Some sample \<Rightarrow> \<lparr>evalSamples = s, evalErrors = g sample\<rparr>) = s"
  by (cases errorSample) simp_all

text \<open>
  The state of the last sample is the state of the trace of the virtual machine after the
  last instruction of the aggregated instructions.
\<close>

lemma evaluateInstructionAggregations_last_sample:
  assumes "\<forall>k < length aggs. lastIp (aggs ! k) =
             length (concat (map aggInstructions (take (Suc k) aggs)))"
  defines "instrs \<equiv> concat (map aggInstructions aggs)"
  shows "instrs = [] \<longrightarrow> evalSamples (evaluateInstructionAggregations im aggs vm getState) = []"
    and "instrs \<noteq> [] \<longrightarrow>
           evalSamples (evaluateInstructionAggregations im aggs vm getState) \<noteq> [] \<and>
           sampleState (last (evalSamples (evaluateInstructionAggregations im aggs vm getState))) =
             arrayAt (vm (getState instrs)) (int (length instrs) - 1)"
proof -
  let ?ne = "filter (\<lambda>a. length (aggInstructions a) > 0) aggs"
  have samples: "evalSamples (evaluateInstructionAggregations im aggs vm getState) =
      map (\<lambda>a. EvaluationSample (aggRange a) (arrayAt (vm (getState instrs)) (int (lastIp a) - 1))) ?ne"
    by (simp add: evaluateInstructionAggregations_def Let_def foldl_evaluationPlan
        concat_nonempty_aggregations instrs_def comp_def evalSamples_case)
  have empty_iff: "?ne = [] \<longleftrightarrow> instrs = []"
    by (auto simp: instrs_def filter_empty_conv)
  show "instrs = [] \<longrightarrow> evalSamples (evaluateInstructionAggregations im aggs vm getState) = []"
    using samples empty_iff by simp
  show "instrs \<noteq> [] \<longrightarrow>
           evalSamples (evaluateInstructionAggregations im aggs vm getState) \<noteq> [] \<and>
           sampleState (last (evalSamples (evaluateInstructionAggregations im aggs vm getState))) =
             arrayAt (vm (getState instrs)) (int (length instrs) - 1)"
  proof
    assume "instrs \<noteq> []"
    with empty_iff have ne: "?ne \<noteq> []" by simp
    from last_filter_index [OF ne] obtain k where k: "k < length aggs"
      "last ?ne = aggs ! k"
      "\<forall>j. k < j \<and> j < length aggs \<longrightarrow> \<not> length (aggInstructions (aggs ! j)) > 0"
      by blast
    from k(3) have "\<forall>j. k < j \<and> j < length aggs \<longrightarrow> aggInstructions (aggs ! j) = []" by simp
    from concat_take_all [OF k(1) this] assms(1) k(1,2)
    have "lastIp (last ?ne) = length instrs" by (simp add: instrs_def)
    with ne samples show "evalSamples (evaluateInstructionAggregations im aggs vm getState) \<noteq> [] \<and>
           sampleState (last (evalSamples (evaluateInstructionAggregations im aggs vm getState))) =
             arrayAt (vm (getState instrs)) (int (length instrs) - 1)"
      by (simp add: last_map)
  qed
qed

lemma sampledEvaluate_last_state:
  assumes "aggregatedParseReductionTraceNodes im nodes = Inr parsed"
    and "sampledEvaluateReductionTraceNodes im nodes vm getState = Inr evaluated"
    and "sampledErrors evaluated = None"
  defines "instrs \<equiv> concat (map aggInstructions (aggregations parsed))"
  shows "remaining parsed = None"
    and "instrs = [] \<longrightarrow> sampleState (last (sampledSamples evaluated)) = Some (getState [])"
    and "instrs \<noteq> [] \<longrightarrow>
           length instrs \<le> length (vm (getState instrs)) \<and>
           sampleState (last (sampledSamples evaluated)) =
             Some (vm (getState instrs) ! (length instrs - 1))"
proof -
  define ev where "ev = evaluateInstructionAggregations im (aggregations parsed) vm getState"
  note unfold = sampledEvaluate_unfold [OF assms(1) ev_def [symmetric], of ]
  from assms(2,3) have ok: "remaining parsed = None" "evalErrors ev = None"
    unfolding unfold by (auto split: if_splits)
  show "remaining parsed = None" by (rule ok(1))
  have inv: "\<forall>k < length (aggregations parsed). lastIp (aggregations parsed ! k) =
           length (concat (map aggInstructions (take (Suc k) (aggregations parsed))))"
    using assms(1) unfolding aggregatedParseReductionTraceNodes_def
    by (rule aggregateLoop_lastIp) simp_all
  note last = evaluateInstructionAggregations_last_sample [OF inv, of im vm getState,
      folded instrs_def ev_def]
  show "instrs = [] \<longrightarrow> sampleState (last (sampledSamples evaluated)) = Some (getState [])"
  proof
    assume "instrs = []"
    with last(1) have "evalSamples ev = []" by simp
    with assms(2) ok show "sampleState (last (sampledSamples evaluated)) = Some (getState [])"
      unfolding unfold by (auto split: list.splits option.splits)
  qed
  show "instrs \<noteq> [] \<longrightarrow>
           length instrs \<le> length (vm (getState instrs)) \<and>
           sampleState (last (sampledSamples evaluated)) =
             Some (vm (getState instrs) ! (length instrs - 1))"
  proof
    assume ne: "instrs \<noteq> []"
    with last(2) have s: "evalSamples ev \<noteq> []"
      and st: "sampleState (last (evalSamples ev)) =
                 arrayAt (vm (getState instrs)) (int (length instrs) - 1)" by simp_all
    from s have "last (evalSamples ev) \<in> set (evalSamples ev)" by simp
    with evaluateInstructionAggregations_success [of im "aggregations parsed" vm getState] ok(2)
    have "sampleState (last (evalSamples ev)) \<noteq> None" by (simp add: ev_def)
    with st ne have "length instrs \<le> length (vm (getState instrs))"
      and "sampleState (last (evalSamples ev)) = Some (vm (getState instrs) ! (length instrs - 1))"
      by (auto simp: arrayAt_def nat_diff_distrib' split: if_splits)
    moreover from assms(2) ok s have "sampledSamples evaluated = evalSamples ev"
      unfolding unfold by (auto split: option.splits)
    ultimately show "length instrs \<le> length (vm (getState instrs)) \<and>
           sampleState (last (sampledSamples evaluated)) =
             Some (vm (getState instrs) ! (length instrs - 1))" by simp
  qed
qed



lemma reduce_returns:
  fixes im :: "('s, 'm) ReduceImports_scheme"
  shows "\<exists>node. reduceSegment im vm cs seg = Inr node"
    and "\<exists>nodes. reduceSegments im vm cs segs = Inr nodes"
    and "script \<noteq> [] \<longrightarrow>
           (\<exists>node children. reduceScript im vm cs script = Inr node \<and>
              source node = Some children \<and> children \<noteq> [])"
proof (induction im vm cs seg and im vm cs segs and im vm cs script
    rule: reduceSegment_reduceSegments_reduceScript.induct)
  case (1 im vm cs rng val origin)
  show ?case by simp
next
  case (2 im vm cs rng val)
  then show ?case by (cases "val = []") auto
next
  case (3 im vm cs rng val)
  show ?case
  proof (cases "val = [] \<or> vm = None \<or> cs = None")
    case True
    then show ?thesis by (auto simp: Let_def split: option.splits)
  next
    case False
    then obtain vm' cs' where v: "vm = Some vm'" "cs = Some cs'" and ne: "val \<noteq> []" by auto
    from ne have l: "\<not> length val = 0" by simp
    from 3 [OF l refl v] ne obtain rt children where
      rt: "reduceScript im vm cs val = Inr rt" "source rt = Some children" "children \<noteq> []"
      by auto
    from sampledEvaluate_returns [OF rt(3), of im vm' cs'] obtain ev where
      "sampledEvaluateReductionTraceNodes im children vm' cs' = Inr ev" by blast
    with rt v ne show ?thesis by (simp add: Let_def)
  qed
next
  case (4 im vm cs rng val)
  show ?case by simp
next
  case (5 im vm cs rng val)
  show ?case by simp
next
  case (6 im vm cs)
  show ?case by simp
next
  case (7 im vm cs segment segments)
  then show ?case by auto
next
  case (8 im vm cs compiledScript)
  show ?case
  proof
    assume ne: "compiledScript \<noteq> []"
    from 8 obtain children where ch: "reduceSegments im vm cs compiledScript = Inr children"
      by blast
    from reduceSegments_length [OF ch] ne have cne: "children \<noteq> []" by auto
    then obtain r where r: "mergeRanges (map nodeRange children) = Inr r"
      by (cases children) (auto simp: mergeRanges_Cons)
    show "\<exists>node children. reduceScript im vm cs compiledScript = Inr node \<and>
              source node = Some children \<and> children \<noteq> []"
      using cne by (simp add: reduceScript.simps ch foldl_reductionStep r Let_def)
  qed
qed

text \<open>
  The resolver never returns an empty script: when a parse tree has no children, the
  resolved script is a single comment segment, so that the reducer always has at least
  one range. This holds at every depth: the value of a Push or Evaluation segment of a
  resolved script is a resolved script.
\<close>

lemma resolveScriptSegment_nonempty:
  "resolveScriptSegment codec resolver seg = Inr script \<Longrightarrow> script \<noteq> []"
  by (cases seg) (auto split: sum.splits if_splits)

lemma resolveNode_nonempty:
  "resolveNode codec resolver node = Inr (SegmentPush rng val) \<Longrightarrow> val \<noteq> []"
  "resolveNode codec resolver node = Inr (SegmentEvaluation rng val) \<Longrightarrow> val \<noteq> []"
  by (cases node; auto split: sum.splits IdentifierResolution.splits
      dest: resolveScriptSegment_nonempty)+









text \<open>
  Outside the resolved scripts, on a Push segment whose value is the empty array, the
  reduction has a guard, which returns the empty node.
\<close>

lemma reduceSegment_push_empty:
  "reduceSegment im vm cs (SegmentPush rng []) = Inr (TraceNode [] None rng None None)"
  by (simp add: emptyReductionTraceNode_def)

text \<open>
  The cases of the reduction of an Evaluation segment. When the virtual machine or the
  state factory is missing, the segment reduces to empty bytecode with one error; when
  both are supplied, the child script is reduced, its child nodes are evaluated with
  sampling, and the errors of the reduction followed by the errors that the evaluation
  returns are the segment's errors, with empty bytecode, when there are any; when there
  are none, the segment has no errors and its bytecode is the top stack item of the
  state of the last sample, or empty when that stack is empty. The state of the last
  sample is the state that the trace of the virtual machine holds for the last of the
  aggregated instructions of the child nodes, whether or not that state has an error;
  with no instructions, it is the state created over no instructions.
\<close>

lemma reduceSegment_evaluation_cases:
  fixes im :: "('s, 'm) ReduceImports_scheme"
  shows
  "(\<forall>rng val. val \<noteq> [] \<and> (vm = None \<or> cs = None) \<longrightarrow>
      reduceSegment im vm cs (SegmentEvaluation rng val) =
        Inr (TraceNode []
               (Some [ErrorInformation
                  ''Both a VM and a createState method are required to reduce evaluations.'' rng])
               rng None None)) \<and>
   (\<forall>rng val vm' cs'. val \<noteq> [] \<and> vm = Some vm' \<and> cs = Some cs' \<longrightarrow>
      (\<exists>reductionTrace children parsed evaluated node.
         reduceScript im vm cs val = Inr reductionTrace \<and>
         source reductionTrace = Some children \<and>
         aggregatedParseReductionTraceNodes im children = Inr parsed \<and>
         sampledEvaluateReductionTraceNodes im children vm' cs' = Inr evaluated \<and>
         reduceSegment im vm cs (SegmentEvaluation rng val) = Inr node \<and>
         (if orEmpty (errors reductionTrace) @ orEmpty (sampledErrors evaluated) = []
          then errors node = None \<and>
               (let instrs = concat (map aggInstructions (aggregations parsed));
                    state = (if instrs = [] then cs' []
                             else vm' (cs' instrs) ! (length instrs - 1))
                in (instrs \<noteq> [] \<longrightarrow> length instrs \<le> length (vm' (cs' instrs))) \<and>
                   bytecode node =
                     (if stateStack im state = [] then [] else last (stateStack im state)))
          else errors node =
                 Some (orEmpty (errors reductionTrace) @ orEmpty (sampledErrors evaluated)) \<and>
               bytecode node = []))) \<and>
   (\<forall>rng. reduceSegment im vm cs (SegmentEvaluation rng []) =
      Inr (TraceNode [] None rng None None))"
proof (intro conjI allI impI)
  fix rng and val :: "bytes ResolvedScript"
  assume "val \<noteq> [] \<and> (vm = None \<or> cs = None)"
  then show "reduceSegment im vm cs (SegmentEvaluation rng val) =
        Inr (TraceNode []
               (Some [ErrorInformation
                  ''Both a VM and a createState method are required to reduce evaluations.'' rng])
               rng None None)"
    by (auto simp: Let_def split: option.splits)
next
  fix rng and val :: "bytes ResolvedScript" and vm' cs'
  assume h: "val \<noteq> [] \<and> vm = Some vm' \<and> cs = Some cs'"
  with reduce_returns(3) [of val im vm cs] obtain rt children where
    rt: "reduceScript im vm cs val = Inr rt" "source rt = Some children" "children \<noteq> []"
    by blast
  from aggregateLoop_returns [of im children "[]" 0 None] obtain parsed where
    parsed: "aggregatedParseReductionTraceNodes im children = Inr parsed"
    by (auto simp: aggregatedParseReductionTraceNodes_def)
  from sampledEvaluate_returns [OF rt(3), of im vm' cs'] obtain ev where
    ev: "sampledEvaluateReductionTraceNodes im children vm' cs' = Inr ev"
    and shape: "case sampledErrors ev of
        None \<Rightarrow>
          sampledSamples ev \<noteq> [] \<and>
          (\<exists>state. sampleState (last (sampledSamples ev)) = Some state \<and>
             sampledBytecode ev =
               (if stateStack im state = [] then [] else last (stateStack im state)))
      | Some es \<Rightarrow> es \<noteq> [] \<and> sampledBytecode ev = []"
    by blast
  define merged where "merged = orEmpty (errors rt) @ orEmpty (sampledErrors ev)"
  define node where "node =
     (if merged \<noteq> [] then TraceNode [] (Some merged) rng (Some [rt]) (Some (sampledSamples ev))
      else TraceNode (sampledBytecode ev) None rng (Some [rt]) (Some (sampledSamples ev)))"
  define instrs where "instrs = concat (map aggInstructions (aggregations parsed))"
  define state where "state = (if instrs = [] then cs' []
                               else vm' (cs' instrs) ! (length instrs - 1))"
  have red: "reduceSegment im vm cs (SegmentEvaluation rng val) = Inr node"
    using h rt ev by (simp add: Let_def node_def merged_def orEmpty_def)
  have "if merged = []
        then errors node = None \<and>
             (instrs \<noteq> [] \<longrightarrow> length instrs \<le> length (vm' (cs' instrs))) \<and>
             bytecode node =
               (if stateStack im state = [] then [] else last (stateStack im state))
        else errors node = Some merged \<and> bytecode node = []"
  proof (cases "merged = []")
    case True
    then have none: "sampledErrors ev = None"
      using shape by (cases "sampledErrors ev") (auto simp: merged_def orEmpty_def)
    note last = sampledEvaluate_last_state [OF parsed ev none, folded instrs_def]
    from last(2,3) have st: "sampleState (last (sampledSamples ev)) = Some state"
      and len: "instrs \<noteq> [] \<longrightarrow> length instrs \<le> length (vm' (cs' instrs))"
      by (auto simp: state_def)
    with shape none True show ?thesis by (simp add: node_def)
  next
    case False
    then show ?thesis by (simp add: node_def)
  qed
  with rt ev red parsed show "\<exists>reductionTrace children parsed evaluated node.
         reduceScript im vm cs val = Inr reductionTrace \<and>
         source reductionTrace = Some children \<and>
         aggregatedParseReductionTraceNodes im children = Inr parsed \<and>
         sampledEvaluateReductionTraceNodes im children vm' cs' = Inr evaluated \<and>
         reduceSegment im vm cs (SegmentEvaluation rng val) = Inr node \<and>
         (if orEmpty (errors reductionTrace) @ orEmpty (sampledErrors evaluated) = []
          then errors node = None \<and>
               (let instrs = concat (map aggInstructions (aggregations parsed));
                    state = (if instrs = [] then cs' []
                             else vm' (cs' instrs) ! (length instrs - 1))
                in (instrs \<noteq> [] \<longrightarrow> length instrs \<le> length (vm' (cs' instrs))) \<and>
                   bytecode node =
                     (if stateStack im state = [] then [] else last (stateStack im state)))
          else errors node =
                 Some (orEmpty (errors reductionTrace) @ orEmpty (sampledErrors evaluated)) \<and>
               bytecode node = [])"
    unfolding merged_def instrs_def state_def Let_def by blast
next
  fix rng
  show "reduceSegment im vm cs (SegmentEvaluation rng []) = Inr (TraceNode [] None rng None None)"
    by (simp add: emptyReductionTraceNode_def)
qed

text \<open>
  Claim C6 states that the errors of the evaluation are merged into the errors of the
  segment, and that the bytecode is the top stack item when no errors arise. In the
  evaluation \<open>$(<0x0102> OP_RETURN)\<close> the virtual machine fails on the last
  instruction: the last state of its trace has the error. The reduction finds a state at
  every breakpoint, and it reads the error of a state only for the message of the error
  that it reports when a later breakpoint has no state, so it returns the segment
  without errors, with the top stack item of the failed state as bytecode. In \<open>$(OP_RETURN <0x0102>)\<close> the same failure is on
  the first instruction: the state of the second breakpoint is missing, and the error of
  the state before it is reported.
\<close>

theorem reduceSegment_evaluation_final_error_unreported:
  "(case reduceSegment exampleImports (Some pushesDebug) (Some exampleCreateState)
           (SegmentEvaluation range0
              [SegmentPush range0 [SegmentBytecode range0 [0x01, 0x02] (FromLiteral HexLiteral)],
               SegmentBytecode range0 [0x6a] (FromOpcode ''OP_RETURN'')]) of
      Inl e \<Rightarrow> False
    | Inr node \<Rightarrow>
        errors node = None \<and> bytecode node = [0x01, 0x02] \<and>
        map (map_option error \<circ> sampleState) (orEmpty (samples node)) =
          [Some None, Some (Some (otherAuthenticationError ''unknown opcode''))]) \<and>
   (case reduceSegment exampleImports (Some pushesDebug) (Some exampleCreateState)
           (SegmentEvaluation range0
              [SegmentBytecode range0 [0x6a] (FromOpcode ''OP_RETURN''),
               SegmentPush range0 [SegmentBytecode range0 [0x01, 0x02] (FromLiteral HexLiteral)]]) of
      Inl e \<Rightarrow> False
    | Inr node \<Rightarrow>
        errors node =
          Some [ErrorInformation ''Failed to reduce evaluation: unknown opcode'' range0] \<and>
        bytecode node = [])"
  by code_simp

section \<open>Properties of identifier resolution\<close>

lemma getProperty_None_iff:
  "getProperty object k = None \<longleftrightarrow> object k = None \<and> k \<notin> set objectPrototypeKeys"
  by (auto simp: getProperty_def split: option.splits)

lemma operationResult_cases [simp]:
  "operationResult r \<noteq> OperationFalse"
  by (cases r) simp_all



text \<open>
  The order of identifier resolution: the lookup in the opcodes, then variable
  resolution, then script resolution. An identifier is unknown when the three lookups that
  the resolver makes are \<open>undefined\<close>, and that is so for an identifier that no table
  has as its own key as long as neither the identifier nor its part before the first dot
  is a key of \<open>Object.prototype\<close>.
\<close>

lemma createIdentifierResolver_order:
  fixes env :: "('op, 'm) CompilationEnvironment_scheme"
  defines "opcodeLookup \<equiv> (\<lambda>ident.
     case opcodes env of None \<Rightarrow> None | Some table \<Rightarrow> getProperty table ident)"
  shows
  "opcodeLookup ident = Some property \<Longrightarrow>
     createIdentifierResolver compile run d env scriptId ident =
       Inr (ResolvedOpcode (propertyValue property))"
  "opcodeLookup ident = None \<Longrightarrow>
   resolveVariableIdentifier run d env ident = Inr (OperationBytecode bc) \<Longrightarrow>
     createIdentifierResolver compile run d env scriptId ident = Inr (ResolvedVariable bc)"
  "opcodeLookup ident = None \<Longrightarrow>
   resolveVariableIdentifier run d env ident = Inr (OperationError err) \<Longrightarrow>
     createIdentifierResolver compile run d env scriptId ident = Inr (FailedVariable err)"
  "opcodeLookup ident = None \<Longrightarrow>
   resolveVariableIdentifier run d env ident = Inr OperationFalse \<Longrightarrow>
   resolveScriptIdentifier compile d env ident scriptId = Inr (Some (Inr (bytes, resolved))) \<Longrightarrow>
     createIdentifierResolver compile run d env scriptId ident =
       Inr (ResolvedScriptIdentifier bytes resolved)"
  "opcodeLookup ident = None \<Longrightarrow>
   resolveVariableIdentifier run d env ident = Inr OperationFalse \<Longrightarrow>
   resolveScriptIdentifier compile d env ident scriptId = Inr (Some (Inl err)) \<Longrightarrow>
     createIdentifierResolver compile run d env scriptId ident = Inr (FailedScript err ident)"
  "opcodeLookup ident = None \<Longrightarrow>
   resolveVariableIdentifier run d env ident = Inr OperationFalse \<Longrightarrow>
   resolveScriptIdentifier compile d env ident scriptId = Inr None \<Longrightarrow>
     createIdentifierResolver compile run d env scriptId ident =
       Inr (FailedUnknown (''Unknown identifier '' @ [CHR 0x27] @ ident @ [CHR 0x27] @ ''.''))"
  by (simp_all add: opcodeLookup_def createIdentifierResolver_def)

lemma createIdentifierResolver_unknown_own_keys:
  fixes env :: "('op, 'm) CompilationEnvironment_scheme"
  assumes "ident \<notin> set objectPrototypeKeys"
    and "hd (splitOn (CHR ''.'') ident) \<notin> set objectPrototypeKeys"
    and "(case opcodes env of None \<Rightarrow> None | Some table \<Rightarrow> table ident) = None"
    and "hd (splitOn (CHR ''.'') ident) \<notin>
           {''current_block_height'', ''current_block_time'', ''signing_serialization''}"
    and "(case variables env of None \<Rightarrow> None
          | Some vars \<Rightarrow> vars (hd (splitOn (CHR ''.'') ident))) = None"
    and "map_of (scripts env) ident = None"
  shows "createIdentifierResolver compile run d env scriptId ident =
     Inr (FailedUnknown (''Unknown identifier '' @ [CHR 0x27] @ ident @ [CHR 0x27] @ ''.''))"
proof -
  have "splitOn (CHR ''.'') ident \<noteq> []"
    by (cases ident) (auto split: list.splits)
  then obtain v rest where parts: "splitOn (CHR ''.'') ident = v # rest"
    by (cases "splitOn (CHR ''.'') ident") auto
  from assms(1,3) have opc:
    "(case opcodes env of None \<Rightarrow> None | Some table \<Rightarrow> getProperty table ident) = None"
    by (auto simp: getProperty_None_iff split: option.splits)
  from assms(2,5) parts have
    "(case variables env of None \<Rightarrow> None | Some vars \<Rightarrow> getProperty vars v) = None"
    by (auto simp: getProperty_None_iff split: option.splits)
  with assms(4) parts have var: "resolveVariableIdentifier run d env ident = Inr OperationFalse"
    by (cases "variables env") (simp_all add: resolveVariableIdentifier_def Let_def)
  from assms(1,6) have scr: "resolveScriptIdentifier compile d env ident scriptId = Inr None"
    by (simp add: resolveScriptIdentifier_def getProperty_None_iff)
  from opc var scr show ?thesis
    by (simp add: createIdentifierResolver_def)
qed

lemma resolver_examples:
  "createIdentifierResolver exampleCompile exampleRun () exampleEnvironment (Some ''unlock'')
     ''OP_1'' = Inr (ResolvedOpcode (Uint8Array [0x51]))"
  "createIdentifierResolver exampleCompile exampleRun () exampleEnvironment (Some ''unlock'')
     ''owner.public_key'' = Inr (ResolvedVariable (Uint8Array [0x02, 0x03]))"
  "createIdentifierResolver exampleCompile exampleRun () exampleEnvironment (Some ''unlock'')
     ''lock'' = Inr (ResolvedScriptIdentifier [0x51]
                      [SegmentBytecode range0 (Uint8Array [0x51]) (FromOpcode ''OP_1'')])"
  "createIdentifierResolver exampleCompile exampleRun () exampleEnvironment (Some ''unlock'')
     ''nope'' = Inr (FailedUnknown ''Unknown identifier 'nope'.'')"
  "createIdentifierResolver exampleCompile exampleRun () exampleEnvironment (Some ''unlock'')
     ''toString'' = Inr (ResolvedOpcode (PrototypeMember ''toString''))"
  by code_simp+

lemma resolver_example_without_opcodes:
  \<open>createIdentifierResolver exampleCompile exampleRun ()
     (exampleEnvironment\<lparr>opcodes := None\<rparr>) (Some ''unlock'') ''toString'' =
   Inr (FailedVariable ''The "toString" variable type can not be resolved because the "undefined" operation has not been included in this compiler's CompilationEnvironment.'')\<close>
  by code_simp

text \<open>
  Claim C5 states that the resolver returns the failure of type \<open>unknown\<close> for every
  identifier that matches none of the opcodes, the variables and the scripts. The
  identifier \<open>toString\<close> is no opcode, no variable (it is no built-in variable either)
  and no script of the example environment, whose opcodes are \<open>OP_1\<close>, whose
  variables are \<open>owner\<close> and whose scripts are \<open>lock\<close>. The resolver looks it up
  in the opcodes, finds the function that every object inherits under that name, and
  returns it as the bytecode of a successfully resolved opcode. Without the opcodes, the
  lookup in the variables finds the same function, and the result is a failure of type
  \<open>variable\<close>.
\<close>

theorem createIdentifierResolver_inherited_member:
  \<open>the (opcodes exampleEnvironment) ''toString'' = None \<and>
   the (variables exampleEnvironment) ''toString'' = None \<and>
   map_of (scripts exampleEnvironment) ''toString'' = None \<and>
   ''toString'' \<notin> {''current_block_height'', ''current_block_time'', ''signing_serialization''} \<and>
   createIdentifierResolver exampleCompile exampleRun () exampleEnvironment (Some ''unlock'')
     ''toString'' = Inr (ResolvedOpcode (PrototypeMember ''toString'')) \<and>
   resolutionBytecode (ResolvedOpcode (PrototypeMember ''toString'')) \<noteq> None \<and>
   createIdentifierResolver exampleCompile exampleRun ()
     (exampleEnvironment\<lparr>opcodes := None\<rparr>) (Some ''unlock'') ''toString'' =
   Inr (FailedVariable ''The "toString" variable type can not be resolved because the "undefined" operation has not been included in this compiler's CompilationEnvironment.'')\<close>
  unfolding resolver_examples resolver_example_without_opcodes
  by simp

section \<open>Properties of the compilation of scripts on a cycle\<close>

lemma set_getResolutionErrors:
  "set (getResolutionErrors segments) =
     (\<Union>segment \<in> set segments. set (resolutionErrorsOfSegment segment))"
  by (induction segments) auto








lemma circularDependencyMessage_marker:
  "sublist cycleMarker (circularDependencyMessage ident ids)"
proof -
  have \<open>circularDependencyMessage ident ids =
      cycleMarker @ ('' Script "'' @ ident
        @ ''" relies on itself to be generated. (Parent scripts: '' @ joinWith '', '' ids @ '')'')\<close>
    by (simp add: circularDependencyMessage_def cycleMarker_def)
  then show ?thesis by (metis sublist_append_rightI)
qed


lemma extendedEnvironment_fields [simp]:
  "operations (extendedEnvironment env parent) = operations env"
  "variables (extendedEnvironment env parent) = variables env"
  "opcodes (extendedEnvironment env parent) = opcodes env"
  "scripts (extendedEnvironment env parent) = scripts env"
  "orEmpty (sourceScriptIds (extendedEnvironment env (Some s))) =
     orEmpty (sourceScriptIds env) @ [s]"
  by (simp_all add: extendedEnvironment_def orEmpty_def split: option.splits)

















text \<open>
  An identifier that the lookup in the opcodes finds is no reference to a script, also
  when what the lookup finds is a member inherited from \<open>Object.prototype\<close>: with
  opcodes in the environment, the scripts \<open>a\<close> and \<open>valueOf\<close>, each with the
  other's identifier as source text, are on no cycle, and \<open>a\<close> compiles. Without
  opcodes they are on a cycle.
\<close>

lemma inherited_opcode_is_no_reference:
  "\<not> refersTo exampleCompileImports ()
       ((scriptsEnvironment [(''a'', ''valueOf''), (''valueOf'', ''a'')])
          \<lparr>opcodes := Some [''OP_1'' \<mapsto> [0x51]]\<rparr>) ''a'' ''valueOf''"
  "compileScript exampleCompileImports ''a'' ()
     ((scriptsEnvironment [(''a'', ''valueOf''), (''valueOf'', ''a'')])
        \<lparr>opcodes := Some [''OP_1'' \<mapsto> [0x51]]\<rparr>) =
   Inr (CompilationSuccess []
          [SegmentBytecode (pluckRange (markAt 1 8)) (PrototypeMember ''valueOf'')
             (FromOpcode ''valueOf'')])"
  \<open>compileScript exampleCompileImports ''a'' ()
     (scriptsEnvironment [(''a'', ''valueOf''), (''valueOf'', ''a'')]) =
   Inr (CompilationFailure
     [ErrorInformation
        ''Compilation error in resolved script, "valueOf": Compilation error in resolved script, "a": A circular dependency was encountered. Script "valueOf" relies on itself to be generated. (Parent scripts: a, valueOf) [1, 1] [1, 1]''
        (pluckRange (markAt 1 8))])\<close>
proof -
  show "\<not> refersTo exampleCompileImports ()
       ((scriptsEnvironment [(''a'', ''valueOf''), (''valueOf'', ''a'')])
          \<lparr>opcodes := Some [''OP_1'' \<mapsto> [0x51]]\<rparr>) ''a'' ''valueOf''"
    by (simp add: refersTo_def resolvesAsScript_def getProperty_def objectPrototypeKeys_def)
  show "compileScript exampleCompileImports ''a'' ()
     ((scriptsEnvironment [(''a'', ''valueOf''), (''valueOf'', ''a'')])
        \<lparr>opcodes := Some [''OP_1'' \<mapsto> [0x51]]\<rparr>) =
   Inr (CompilationSuccess []
          [SegmentBytecode (pluckRange (markAt 1 8)) (PrototypeMember ''valueOf'')
             (FromOpcode ''valueOf'')])"
    by code_simp
  show \<open>compileScript exampleCompileImports ''a'' ()
     (scriptsEnvironment [(''a'', ''valueOf''), (''valueOf'', ''a'')]) =
   Inr (CompilationFailure
     [ErrorInformation
        ''Compilation error in resolved script, "valueOf": Compilation error in resolved script, "a": A circular dependency was encountered. Script "valueOf" relies on itself to be generated. (Parent scripts: a, valueOf) [1, 1] [1, 1]''
        (pluckRange (markAt 1 8))])\<close>
    by code_simp
qed

text \<open>
  When the resolution of an identifier throws, so does the compilation: in the example
  environment, whose key operations are looked up by operation identifier, the
  identifier \<open>owner.valueOf\<close> calls the inherited \<open>valueOf\<close>, and the script
  \<open>a\<close>, which is on a cycle with \<open>b\<close>, compiles to no result.
\<close>

lemma compileScript_on_cycle_throws:
  "refersTo exampleCompileImports ()
     (exampleEnvironment\<lparr>opcodes := None, scripts := [(''a'', ''owner.valueOf b''), (''b'', ''a'')]\<rparr>)
     ''a'' ''b''"
  "refersTo exampleCompileImports ()
     (exampleEnvironment\<lparr>opcodes := None, scripts := [(''a'', ''owner.valueOf b''), (''b'', ''a'')]\<rparr>)
     ''b'' ''a''"
  "compileScript exampleCompileImports ''a'' ()
     (exampleEnvironment\<lparr>opcodes := None, scripts := [(''a'', ''owner.valueOf b''), (''b'', ''a'')]\<rparr>)
   = Inl TypeError"
proof -
  have var: "resolveVariableIdentifier exampleRun ()
      (exampleEnvironment\<lparr>opcodes := None, scripts := [(''a'', ''owner.valueOf b''), (''b'', ''a'')]\<rparr>)
      ident = Inr OperationFalse" if "ident = ''a'' \<or> ident = ''b''" for ident
    using that
    by (auto simp: resolveVariableIdentifier_def getProperty_def objectPrototypeKeys_def Let_def)
  show "refersTo exampleCompileImports ()
     (exampleEnvironment\<lparr>opcodes := None, scripts := [(''a'', ''owner.valueOf b''), (''b'', ''a'')]\<rparr>)
     ''a'' ''b''"
    using var [of "''b''"] by (simp add: refersTo_def resolvesAsScript_def getProperty_def)
  show "refersTo exampleCompileImports ()
     (exampleEnvironment\<lparr>opcodes := None, scripts := [(''a'', ''owner.valueOf b''), (''b'', ''a'')]\<rparr>)
     ''b'' ''a''"
    using var [of "''a''"] by (simp add: refersTo_def resolvesAsScript_def getProperty_def)
  show "compileScript exampleCompileImports ''a'' ()
     (exampleEnvironment\<lparr>opcodes := None, scripts := [(''a'', ''owner.valueOf b''), (''b'', ''a'')]\<rparr>)
   = Inl TypeError"
    by code_simp
qed

end
